theory Spec2Isabelle
  imports Main "HOL-Library.AList" "HOL-Library.Word"
begin

section \<open>JavaScript values\<close>

text \<open>
  The helm interface exchanges JSON between the command route
  (\<^verbatim>\<open>src/app/api/process-command/route.ts\<close>) and the browser component
  (\<^verbatim>\<open>src/components/NavalHelmInterface.tsx\<close>). A JSON value is modelled as the
  code receives it from \<^verbatim>\<open>JSON.parse\<close>. An object is the list of its own
  key/value pairs, a key being looked up at its first pair. A missing property
  (JavaScript's \<^verbatim>\<open>undefined\<close>) is \<open>None\<close>, which is distinct from an explicit
  \<^verbatim>\<open>null\<close> (\<open>Some JNull\<close>).
\<close>

text \<open>
  A JavaScript number, as \<^verbatim>\<open>JSON.parse\<close> yields it, is one of three kinds.
  \<^item> \<open>Integer w\<close>: the integer \<open>sint w\<close>, from \<open>- 2 ^ 53\<close> to \<open>2 ^ 53 - 1\<close>. Every
    such integer is a double exactly, and \<^verbatim>\<open>Number.prototype.toString\<close> prints it in
    plain decimal.
  \<^item> \<open>Decimal t\<close>: any other finite number (a fraction such as 12.5, or a magnitude
    beyond the integers above), given by the text \<open>t\<close> that
    \<^verbatim>\<open>Number.prototype.toString\<close> prints for it (\<^verbatim>\<open>12.5\<close>, \<^verbatim>\<open>1e+21\<close>). Such a
    number is not zero.
  \<^item> \<open>Infinite neg\<close>: \<^verbatim>\<open>Infinity\<close>, or \<^verbatim>\<open>-Infinity\<close> when \<open>neg\<close> holds, which
    \<^verbatim>\<open>JSON.parse\<close> yields for a literal beyond the doubles such as \<^verbatim>\<open>1e400\<close>.

  \<^verbatim>\<open>JSON.parse\<close> yields no NaN; a negative zero is not told apart from zero (the code
  reads a number by \<^verbatim>\<open>toString\<close>, truthiness and \<^verbatim>\<open>!== null\<close> only, which do not
  tell them apart either).
\<close>

datatype number = Integer "54 word" | Decimal string | Infinite bool

datatype json = JNull | JBool bool | JNum number | JStr string
  | JArr "json list" | JObj "(string \<times> json) list"

text \<open>The JSON number of a small integer.\<close>

abbreviation JInt :: "int \<Rightarrow> json" where
  "JInt n \<equiv> JNum (Integer (of_int n))"

definition finite_number :: "number \<Rightarrow> bool" where
  "finite_number x = (case x of Infinite neg \<Rightarrow> False | _ \<Rightarrow> True)"

type_synonym jsval = "json option"

text \<open>What a \<^verbatim>\<open>throw\<close> carries: a \<^verbatim>\<open>TypeError\<close> raised by the runtime or an
  \<^verbatim>\<open>Error\<close> made by the code, each with its message; \<open>Thrown\<close> is a value
  that is not an \<^verbatim>\<open>Error\<close> instance (a rejected promise's event).\<close>

datatype exn = TypeError string | Error string | Thrown

fun message :: "exn \<Rightarrow> string" where
  "message (TypeError m) = m"
| "message (Error m) = m"
| "message Thrown = []"

text \<open>Truthiness, as \<^verbatim>\<open>!x\<close>, \<^verbatim>\<open>x || y\<close> and \<^verbatim>\<open>if (x)\<close> test it.\<close>

fun truthy :: "jsval \<Rightarrow> bool" where
  "truthy None = False"
| "truthy (Some JNull) = False"
| "truthy (Some (JBool b)) = b"
| "truthy (Some (JNum (Integer w))) = (w \<noteq> 0)"
| "truthy (Some (JNum (Decimal t))) = True"
| "truthy (Some (JNum (Infinite neg))) = True"
| "truthy (Some (JStr s)) = (s \<noteq> [])"
| "truthy (Some (JArr xs)) = True"
| "truthy (Some (JObj kvs)) = True"

text \<open>Property access \<^verbatim>\<open>v.k\<close> for the keys the code reads (none of them is a
  prototype property): it throws on \<^verbatim>\<open>undefined\<close> and \<^verbatim>\<open>null\<close>, reads an object's
  own property, and is \<^verbatim>\<open>undefined\<close> on every other value.\<close>

fun own_prop :: "json \<Rightarrow> string \<Rightarrow> jsval" where
  "own_prop (JObj kvs) k = map_of kvs k"
| "own_prop v k = None"

fun get_prop :: "jsval \<Rightarrow> string \<Rightarrow> exn + jsval" where
  "get_prop None k = Inl (TypeError (''Cannot read properties of undefined (reading '' @ k @ '')''))"
| "get_prop (Some JNull) k = Inl (TypeError (''Cannot read properties of null (reading '' @ k @ '')''))"
| "get_prop (Some v) k = Inr (own_prop v k)"

text \<open>\<^verbatim>\<open>x !== null\<close>: only an explicit null is equal to null; \<^verbatim>\<open>undefined\<close> is not.\<close>

definition not_null :: "jsval \<Rightarrow> bool" where
  "not_null v = (v \<noteq> Some JNull)"

subsection \<open>Number and value to string\<close>

definition digit_char :: "nat \<Rightarrow> char" where
  "digit_char d = ''0123456789'' ! (d mod 10)"

fun nat_toString :: "nat \<Rightarrow> string" where
  "nat_toString n =
     (if n < 10 then [digit_char n] else nat_toString (n div 10) @ [digit_char (n mod 10)])"

declare nat_toString.simps [simp del]

text \<open>The plain decimal text of an integer. It is used for the integers of
  \<open>Integer\<close> and for HTTP statuses, which JavaScript prints in this way.\<close>

definition int_toString :: "int \<Rightarrow> string" where
  "int_toString i =
     (if i < 0 then CHR ''-'' # nat_toString (nat (- i)) else nat_toString (nat i))"

text \<open>\<^verbatim>\<open>Number.prototype.toString\<close>.\<close>

fun number_toString :: "number \<Rightarrow> string" where
  "number_toString (Integer w) = int_toString (sint w)"
| "number_toString (Decimal t) = t"
| "number_toString (Infinite neg) = (if neg then ''-Infinity'' else ''Infinity'')"

text \<open>\<^verbatim>\<open>Array.prototype.join\<close> on elements whose conversion may throw.\<close>

fun join_strict :: "string \<Rightarrow> string option list \<Rightarrow> string option" where
  "join_strict sep [] = Some []"
| "join_strict sep [x] = x"
| "join_strict sep (x # y # ys) =
     (case x of None \<Rightarrow> None
      | Some s \<Rightarrow> (case join_strict sep (y # ys) of None \<Rightarrow> None
                   | Some r \<Rightarrow> Some (s @ sep @ r)))"

text \<open>The method call \<^verbatim>\<open>v.toString()\<close> on a parsed JSON value; \<open>None\<close> is a thrown
  \<^verbatim>\<open>TypeError\<close> (null has no properties; an own property \<^verbatim>\<open>toString\<close> of an
  object is not callable). An array joins its elements with commas, null elements as the
  empty string.\<close>

fun js_toString :: "json \<Rightarrow> string option" where
  "js_toString JNull = None"
| "js_toString (JBool b) = Some (if b then ''true'' else ''false'')"
| "js_toString (JNum x) = Some (number_toString x)"
| "js_toString (JStr s) = Some s"
| "js_toString (JArr xs) =
     join_strict '','' (map (\<lambda>x. if x = JNull then Some [] else js_toString x) xs)"
| "js_toString (JObj kvs) =
     (if map_of kvs ''toString'' \<noteq> None then None else Some ''[object Object]'')"

subsection \<open>Values on the wire\<close>

text \<open>A value sent as JSON and parsed at the other end (\<^verbatim>\<open>JSON.stringify\<close>, then
  \<^verbatim>\<open>JSON.parse\<close>): a finite number arrives as it was sent, a number that is not
  finite is written as \<^verbatim>\<open>null\<close>, also inside arrays and objects.\<close>

fun wire :: "json \<Rightarrow> json" where
  "wire (JNum (Infinite neg)) = JNull"
| "wire (JArr xs) = JArr (map wire xs)"
| "wire (JObj kvs) = JObj (map (\<lambda>(k, v). (k, wire v)) kvs)"
| "wire v = v"

section \<open>Naval vocabulary and formatter\<close>

text \<open>\<^verbatim>\<open>NAVAL_PATTERNS.SPEED\<close> (the same tables in both files).\<close>

definition SPEED_AHEAD :: "(string \<times> int) list" where
  "SPEED_AHEAD =
     [(''emergency flank'', 110), (''flank'', 100), (''full'', 90), (''standard'', 75),
      (''two thirds'', 67), (''half'', 50), (''one third'', 33), (''slow'', 25),
      (''dead slow'', 10), (''stop'', 0)]"

definition SPEED_ASTERN :: "(string \<times> int) list" where
  "SPEED_ASTERN =
     [(''emergency full'', - 100), (''full'', - 75), (''half'', - 50), (''slow'', - 25),
      (''stop'', 0)]"

text \<open>\<^verbatim>\<open>NAVAL_NUMBERS\<close> (route.ts, lines 39 to 50).\<close>

definition NAVAL_NUMBERS :: "(nat \<times> string) list" where
  "NAVAL_NUMBERS =
     [(0, ''zero''), (1, ''one''), (2, ''two''), (3, ''three''), (4, ''four''),
      (5, ''five''), (6, ''six''), (7, ''seven''), (8, ''eight''), (9, ''niner'')]"

text \<open>\<^verbatim>\<open>parseInt\<close> of a one-character string: the digit's value, or \<open>None\<close> for NaN.\<close>

definition parseInt_char :: "char \<Rightarrow> nat option" where
  "parseInt_char c =
     map_of [(CHR ''0'', 0), (CHR ''1'', 1), (CHR ''2'', 2), (CHR ''3'', 3), (CHR ''4'', 4),
             (CHR ''5'', 5), (CHR ''6'', 6), (CHR ''7'', 7), (CHR ''8'', 8), (CHR ''9'', 9)] c"

text \<open>\<^verbatim>\<open>s.padStart(3, '0')\<close>.\<close>

definition padStart3 :: "string \<Rightarrow> string" where
  "padStart3 s = replicate (3 - length s) CHR ''0'' @ s"

text \<open>\<^verbatim>\<open>Array.prototype.join\<close> with a separator: an \<^verbatim>\<open>undefined\<close> element (a
  character that is no digit has no entry in the table) is joined as the empty string.\<close>

fun join_words :: "string \<Rightarrow> string option list \<Rightarrow> string" where
  "join_words sep [] = []"
| "join_words sep [x] = (case x of None \<Rightarrow> [] | Some s \<Rightarrow> s)"
| "join_words sep (x # y # ys) =
     (case x of None \<Rightarrow> [] | Some s \<Rightarrow> s) @ sep @ join_words sep (y # ys)"

definition naval_digit :: "char \<Rightarrow> string option" where
  "naval_digit digit =
     (case parseInt_char digit of None \<Rightarrow> None | Some n \<Rightarrow> map_of NAVAL_NUMBERS n)"

text \<open>\<^verbatim>\<open>formatNavalCourse\<close> (route.ts, lines 52 to 57). The argument is whatever the
  caller read from \<^verbatim>\<open>stateUpdates.course\<close>; \<^verbatim>\<open>course.toString()\<close> throws on
  \<^verbatim>\<open>undefined\<close>.\<close>

definition formatNavalCourse :: "jsval \<Rightarrow> exn + string" where
  "formatNavalCourse course =
     (case course of
        None \<Rightarrow> Inl (TypeError ''Cannot read properties of undefined (reading toString)'')
      | Some v \<Rightarrow>
          (case js_toString v of
             None \<Rightarrow> Inl (TypeError ''course.toString is not a function'')
           | Some s \<Rightarrow> Inr (join_words '' '' (map naval_digit (padStart3 s)))))"

text \<open>What the formatter makes of a number: the characters of its text, padded to
  three, each looked up in the table, joined by single spaces.\<close>

definition course_words :: "number \<Rightarrow> string" where
  "course_words x = join_words '' '' (map naval_digit (padStart3 (number_toString x)))"

text \<open>\<^verbatim>\<open>getSpeedText\<close> (NavalHelmInterface.tsx, lines 447 to 457).\<close>

definition getSpeedText :: "int \<Rightarrow> string" where
  "getSpeedText speed =
     (if speed \<ge> 100 then ''FLANK''
      else if speed \<ge> 90 then ''FULL''
      else if speed \<ge> 75 then ''STANDARD''
      else if speed \<ge> 67 then ''TWO THIRDS''
      else if speed \<ge> 50 then ''HALF''
      else if speed \<ge> 33 then ''ONE THIRD''
      else if speed \<ge> 25 then ''SLOW''
      else if speed \<ge> 10 then ''DEAD SLOW''
      else ''STOP'')"

text \<open>The engine telegraph's order line (NavalHelmInterface.tsx, lines 314 to 318).\<close>

definition telegraphOrder :: "int \<Rightarrow> string" where
  "telegraphOrder speed =
     (if speed > 0 then ''ALL AHEAD '' @ getSpeedText speed
      else if speed < 0 then ''ALL ASTERN '' @ getSpeedText (\<bar>speed\<bar>)
      else ''ALL STOP'')"

section \<open>The command route\<close>

text \<open>An HTTP response: its status and its JSON body (\<^verbatim>\<open>NextResponse.json\<close>).\<close>

record http_response =
  status :: nat
  body :: json

definition error_response :: "nat \<Rightarrow> string \<Rightarrow> http_response" where
  "error_response st msg = \<lparr>status = st, body = JObj [(''error'', JStr msg)]\<rparr>"

text \<open>What the text-completion service answers to one request: the call throws, or
  returns a completion whose \<^verbatim>\<open>choices?.[0]?.message?.content\<close> is a string or is
  missing.\<close>

datatype completion = CompletionThrows string | CompletionContent "string option"

text \<open>The second completion, after the route has trimmed its content, taken the span
  from the first \<^verbatim>\<open>{\<close> to the last \<^verbatim>\<open>}\<close> when there is one, and given it to
  \<^verbatim>\<open>JSON.parse\<close> (route.ts, lines 216 to 237).\<close>

datatype interpretation_reply =
    ReplyThrows string
  | ReplyNoContent
  | ReplyUnparsable
  | ReplyParsed json

text \<open>\<^verbatim>\<open>String.prototype.trim\<close> on 8-bit code units.\<close>

definition is_space :: "char \<Rightarrow> bool" where
  "is_space c = (of_char c \<in> {9, 10, 11, 12, 13, 32, 160 :: nat})"

definition js_trim :: "string \<Rightarrow> string" where
  "js_trim s = rev (dropWhile is_space (rev (dropWhile is_space s)))"

text \<open>The pattern \<^verbatim>\<open>/course (\d{3})/\<close> matched at the start of a string.\<close>

definition is_digit :: "char \<Rightarrow> bool" where
  "is_digit c = (c \<in> set ''0123456789'')"

definition course_match :: "string \<Rightarrow> bool" where
  "course_match s =
     (take 7 s = ''course '' \<and>
      (case drop 7 s of a # b # c # rest \<Rightarrow> is_digit a \<and> is_digit b \<and> is_digit c
       | _ \<Rightarrow> False))"

text \<open>\<^verbatim>\<open>response.replace(/course (\d{3})/, `course ${words}`)\<close>: the pattern has no
  global flag, so the leftmost match alone is replaced. (The words of
  \<^verbatim>\<open>formatNavalCourse\<close> never hold a \<^verbatim>\<open>$\<close>, so the replacement text is literal.)\<close>

fun replace_course :: "string \<Rightarrow> string \<Rightarrow> string" where
  "replace_course [] words = []"
| "replace_course (x # xs) words =
     (if course_match (x # xs) then ''course '' @ words @ drop 10 (x # xs)
      else x # replace_course xs words)"

text \<open>Lines 241 to 261 of \<^verbatim>\<open>POST\<close>: structure validation, the course post-processing
  and the success response. A \<open>Inl\<close> is a throw, caught by the handler's inner
  \<^verbatim>\<open>catch\<close>.\<close>

definition finish_interpretation :: "json \<Rightarrow> string \<Rightarrow> json \<Rightarrow> exn + http_response" where
  "finish_interpretation command correctedCommand interpretation =
     (case get_prop (Some interpretation) ''stateUpdates'' of
        Inl e \<Rightarrow> Inl e
      | Inr stateUpdates \<Rightarrow>
          let response = own_prop interpretation ''response'' in
          if \<not> truthy stateUpdates \<or> \<not> truthy response
          then Inl (Error ''Invalid interpretation structure'')
          else
            (case get_prop stateUpdates ''course'' of
               Inl e \<Rightarrow> Inl e
             | Inr crs \<Rightarrow>
                 let answer = (\<lambda>kvs. Inr \<lparr>status = 200, body = JObj
                       (AList.update ''correctedCommand'' (JStr correctedCommand)
                         (AList.update ''originalCommand'' command kvs))\<rparr>)
                 in
                 (case interpretation of
                    JObj kvs \<Rightarrow>
                      if not_null crs then
                        (case formatNavalCourse crs of
                           Inl e \<Rightarrow> Inl e
                         | Inr words \<Rightarrow>
                             (case response of
                                Some (JStr r) \<Rightarrow>
                                  answer (AList.update ''response''
                                            (JStr (replace_course r words)) kvs)
                              | _ \<Rightarrow> Inl (TypeError
                                    ''interpretation.response.replace is not a function'')))
                      else answer kvs
                  | _ \<Rightarrow> Inl (Error ''Invalid interpretation structure''))))"

text \<open>Lines 98 to 261: the two completions in sequence.\<close>

definition interpret_command ::
    "json \<Rightarrow> completion \<Rightarrow> interpretation_reply \<Rightarrow> exn + http_response" where
  "interpret_command command correction interpretation =
     (case correction of
        CompletionThrows m \<Rightarrow> Inl (Error m)
      | CompletionContent content \<Rightarrow>
          (case content of
             None \<Rightarrow> Inl (Error ''No correction response generated'')
           | Some text \<Rightarrow>
               if text = [] then Inl (Error ''No correction response generated'')
               else
                 let correctedCommand = js_trim text in
                 (case interpretation of
                    ReplyThrows m \<Rightarrow> Inl (Error m)
                  | ReplyNoContent \<Rightarrow> Inl (Error ''No interpretation response generated'')
                  | ReplyUnparsable \<Rightarrow>
                      Inl (Error ''Invalid interpretation response format'')
                  | ReplyParsed v \<Rightarrow> finish_interpretation command correctedCommand v)))"

text \<open>\<^verbatim>\<open>POST\<close> (route.ts, lines 59 to 276). \<open>api_key\<close> says whether
  \<^verbatim>\<open>GROQ_API_KEY\<close> is set; \<open>request_body\<close> is \<open>None\<close> when \<^verbatim>\<open>request.json()\<close>
  throws.\<close>

definition POST ::
    "bool \<Rightarrow> json option \<Rightarrow> completion \<Rightarrow> interpretation_reply \<Rightarrow> http_response" where
  "POST api_key request_body correction interpretation =
     (if \<not> api_key then error_response 500 ''Missing GROQ_API_KEY environment variable''
      else
        (case request_body of
           None \<Rightarrow> error_response 400 ''Invalid request body''
         | Some b \<Rightarrow>
             (case get_prop (Some b) ''command'' of
                Inl e \<Rightarrow> error_response 500 (''Internal server error: '' @ message e)
              | Inr command \<Rightarrow>
                  (case command of
                     None \<Rightarrow> error_response 400 ''Command is required''
                   | Some c \<Rightarrow>
                       if \<not> truthy command then error_response 400 ''Command is required''
                       else
                         (case interpret_command c correction interpretation of
                            Inl e \<Rightarrow>
                              error_response 500 (''Failed to process command: '' @ message e)
                          | Inr r \<Rightarrow> r)))))"

section \<open>The helm component\<close>

text \<open>\<^verbatim>\<open>shipState\<close>: three fields, each holding whatever value was last assigned to it.\<close>

record ship_state =
  rudder :: jsval
  course :: jsval
  speed :: jsval

text \<open>A notification of \<^verbatim>\<open>toast\<close> (all are of the destructive variant).\<close>

datatype toast = Toast string string

fun title :: "toast \<Rightarrow> string" where
  "title (Toast t d) = t"

text \<open>What a speech channel was asked to say: the primary channel gets the text, the
  on-device channel the text and the voice selected for the utterance, if any.\<close>

datatype speech = PrimarySpeech jsval | SecondarySpeech jsval "string option"

text \<open>The component's state (the \<^verbatim>\<open>useState\<close> cells of lines 76 to 86) together with
  what it has shown and said so far, most recent first.\<close>

record client_state =
  shipState :: ship_state
  isMuted :: bool
  lastCommand :: json
  commandLog :: "json list"
  screenResponse :: jsval
  processingCommand :: bool
  toasts :: "toast list"
  spoken :: "speech list"

definition initial_state :: client_state where
  "initial_state =
     \<lparr>shipState = \<lparr>rudder = Some (JInt 0), course = Some (JInt 0), speed = Some (JInt 0)\<rparr>,
      isMuted = False, lastCommand = JStr [], commandLog = [], screenResponse = Some (JStr []),
      processingCommand = False, toasts = [], spoken = []\<rparr>"

subsection \<open>Audio feedback\<close>

text \<open>The audio element: it plays to its end, it fires an error event, or
  \<^verbatim>\<open>audio.play()\<close> rejects with an exception.\<close>

datatype playback = PlaybackEnded | PlaybackError | PlayRejected string

datatype primary_reply = PrimaryFetchThrows | PrimaryHttp nat playback

datatype utterance_event = UtteranceEnd | UtteranceError | SynthesisThrows

text \<open>The surroundings of \<^verbatim>\<open>playAudioResponse\<close>: whether the primary channel's API key
  is configured, what the primary service and the audio element do, the names of the
  installed voices, and what the on-device synthesiser does with an utterance.\<close>

record audio_env =
  elevenlabs_key :: bool
  primary :: primary_reply
  voices :: "string list"
  utterance :: utterance_event

text \<open>How an awaited promise settles; \<open>Pending\<close> is a promise that never settles.\<close>

datatype settled = Resolved | Rejected exn | Pending

text \<open>\<^verbatim>\<open>response.ok\<close>.\<close>

definition ok :: "nat \<Rightarrow> bool" where
  "ok st = (200 \<le> st \<and> st \<le> 299)"

text \<open>\<^verbatim>\<open>name.includes(part)\<close>.\<close>

fun str_includes :: "string \<Rightarrow> string \<Rightarrow> bool" where
  "str_includes [] part = (part = [])"
| "str_includes (x # xs) part = (take (length part) (x # xs) = part \<or> str_includes xs part)"

text \<open>The test of \<^verbatim>\<open>voices.find\<close> (lines 150 to 154), and the voice it finds: the
  first one that passes.\<close>

definition preferred :: "string \<Rightarrow> bool" where
  "preferred name =
     (str_includes name ''Daniel'' \<or> str_includes name ''Premium''
      \<or> str_includes name ''Natural'')"

definition preferredVoice :: "string list \<Rightarrow> string option" where
  "preferredVoice vs = find preferred vs"

definition audio_error_toast :: toast where
  "audio_error_toast = Toast ''Audio Error'' ''Failed to play audio response''"

text \<open>\<^verbatim>\<open>playAudioResponse\<close> (NavalHelmInterface.tsx, lines 98 to 172): how the returned
  promise settles, the notifications raised and the speech requested. The promises of
  both channels are returned without \<^verbatim>\<open>await\<close>, so their rejection is not seen by the
  function's own \<^verbatim>\<open>catch\<close>. The on-device promise is resolved by the utterance's
  \<^verbatim>\<open>onend\<close> handler and by nothing else.\<close>

definition playAudioResponse ::
    "audio_env \<Rightarrow> bool \<Rightarrow> jsval \<Rightarrow> settled \<times> toast list \<times> speech list" where
  "playAudioResponse env muted text =
     (if muted then (Resolved, [], [])
      else if elevenlabs_key env then
        (case primary env of
           PrimaryFetchThrows \<Rightarrow>
             (Rejected (TypeError ''Failed to fetch''), [audio_error_toast], [PrimarySpeech text])
         | PrimaryHttp st played \<Rightarrow>
             if \<not> ok st
             then (Rejected (Error (''ElevenLabs API error: '' @ nat_toString st)),
                   [audio_error_toast], [PrimarySpeech text])
             else
               (case played of
                  PlaybackEnded \<Rightarrow> (Resolved, [], [PrimarySpeech text])
                | PlaybackError \<Rightarrow> (Rejected Thrown, [], [PrimarySpeech text])
                | PlayRejected m \<Rightarrow> (Rejected (Error m), [], [PrimarySpeech text])))
      else
        (case utterance env of
           SynthesisThrows \<Rightarrow> (Rejected (TypeError ''speechSynthesis is unavailable''), [], [])
         | UtteranceEnd \<Rightarrow>
             (Resolved, [], [SecondarySpeech text (preferredVoice (voices env))])
         | UtteranceError \<Rightarrow>
             (Pending, [], [SecondarySpeech text (preferredVoice (voices env))])))"

subsection \<open>Processing a command\<close>

text \<open>What \<^verbatim>\<open>fetch('/api/process-command')\<close> gives: it throws, or answers with a
  status and a body (\<open>None\<close> when \<^verbatim>\<open>response.json()\<close> throws).\<close>

datatype fetch_outcome = FetchThrows | FetchResponse nat "json option"

text \<open>The merge of lines 208 to 218, on a truthy \<^verbatim>\<open>stateUpdates\<close>: a field is
  assigned unless the update's field is strictly equal to null.\<close>

definition merge :: "ship_state \<Rightarrow> json \<Rightarrow> ship_state" where
  "merge st stateUpdates =
     (let s1 = (if not_null (own_prop stateUpdates ''rudder'')
                then st\<lparr>rudder := own_prop stateUpdates ''rudder''\<rparr> else st);
          s2 = (if not_null (own_prop stateUpdates ''course'')
                then s1\<lparr>course := own_prop stateUpdates ''course''\<rparr> else s1);
          s3 = (if not_null (own_prop stateUpdates ''speed'')
                then s2\<lparr>speed := own_prop stateUpdates ''speed''\<rparr> else s2)
      in s3)"

text \<open>\<^verbatim>\<open>new Error(result.error)\<close>: the message is the value converted to a string.\<close>

definition error_of :: "json \<Rightarrow> exn" where
  "error_of v =
     (case js_toString v of
        None \<Rightarrow> TypeError ''Cannot convert object to primitive value''
      | Some m \<Rightarrow> Error m)"

text \<open>The \<^verbatim>\<open>catch\<close> block of lines 225 to 231.\<close>

definition command_error_toast :: "exn \<Rightarrow> toast" where
  "command_error_toast e =
     Toast ''Command Error''
       (case e of Thrown \<Rightarrow> ''Failed to process command'' | _ \<Rightarrow> message e)"

text \<open>A run of an async function either returns or stays suspended at an
  \<^verbatim>\<open>await\<close> for ever; both carry the component state left behind.\<close>

datatype run = Returned client_state | Suspended client_state

fun state_of :: "run \<Rightarrow> client_state" where
  "state_of (Returned s) = s"
| "state_of (Suspended s) = s"

text \<open>Lines 204 to 222: the log entry (\<^verbatim>\<open>result.correctedCommand || command\<close>), the
  bounded log, the merge and the screen response.\<close>

definition update_state :: "json \<Rightarrow> string \<Rightarrow> client_state \<Rightarrow> client_state" where
  "update_state result command s =
     (let entry = (case own_prop result ''correctedCommand'' of
                     None \<Rightarrow> JStr command
                   | Some c \<Rightarrow> if truthy (Some c) then c else JStr command);
          s1 = s\<lparr>lastCommand := entry, commandLog := take 5 (entry # commandLog s)\<rparr>;
          s2 = (case own_prop result ''stateUpdates'' of
                  None \<Rightarrow> s1
                | Some u \<Rightarrow>
                    if truthy (Some u) then s1\<lparr>shipState := merge (shipState s) u\<rparr> else s1)
      in s2\<lparr>screenResponse := own_prop result ''response''\<rparr>)"

text \<open>The \<^verbatim>\<open>try\<close> block up to the state updates (lines 179 to 222): a throw, or the
  state after the updates with the text to speak.\<close>

definition apply_result :: "fetch_outcome \<Rightarrow> string \<Rightarrow> client_state \<Rightarrow> exn + client_state" where
  "apply_result fetched command s =
     (case fetched of
        FetchThrows \<Rightarrow> Inl (TypeError ''Failed to fetch'')
      | FetchResponse st b \<Rightarrow>
          if \<not> ok st then Inl (Error ''Failed to process command'')
          else
            (case b of
               None \<Rightarrow> Inl (TypeError ''Unexpected end of JSON input'')
             | Some result \<Rightarrow>
                 (case get_prop (Some result) ''error'' of
                    Inl e \<Rightarrow> Inl e
                  | Inr err \<Rightarrow>
                      (case err of
                         Some v \<Rightarrow>
                           if truthy err then Inl (error_of v) else Inr (update_state result command s)
                       | None \<Rightarrow> Inr (update_state result command s)))))"

text \<open>\<^verbatim>\<open>processCommand\<close> (lines 174 to 235). The gate is tested before the
  \<^verbatim>\<open>try\<close>; the \<^verbatim>\<open>finally\<close> block clears the flag when the \<^verbatim>\<open>try\<close> or the
  \<^verbatim>\<open>catch\<close> block is left, which an \<^verbatim>\<open>await\<close> that never resumes does not do.\<close>

definition processCommand ::
    "audio_env \<Rightarrow> fetch_outcome \<Rightarrow> string \<Rightarrow> client_state \<Rightarrow> run" where
  "processCommand env fetched command s =
     (if processingCommand s then Returned s
      else
        let s0 = s\<lparr>processingCommand := True\<rparr> in
        (case apply_result fetched command s0 of
           Inl e \<Rightarrow>
             Returned (s0\<lparr>toasts := command_error_toast e # toasts s0,
                          processingCommand := False\<rparr>)
         | Inr s1 \<Rightarrow>
             (case playAudioResponse env (isMuted s1) (screenResponse s1) of
                (outcome, ts, sp) \<Rightarrow>
                  let s2 = s1\<lparr>toasts := ts @ toasts s1, spoken := sp @ spoken s1\<rparr> in
                  (case outcome of
                     Resolved \<Rightarrow> Returned (s2\<lparr>processingCommand := False\<rparr>)
                   | Rejected e \<Rightarrow>
                       Returned (s2\<lparr>toasts := command_error_toast e # toasts s2,
                                    processingCommand := False\<rparr>)
                   | Pending \<Rightarrow> Suspended s2))))"

section \<open>The pipeline, end to end\<close>

text \<open>The request body the component sends: \<^verbatim>\<open>JSON.stringify\<close> leaves out the fields
  that are \<^verbatim>\<open>undefined\<close>.\<close>

definition ship_json :: "ship_state \<Rightarrow> json" where
  "ship_json st =
     JObj (concat (map (\<lambda>(k, v). case v of None \<Rightarrow> [] | Some j \<Rightarrow> [(k, j)])
        [(''rudder'', rudder st), (''course'', course st), (''speed'', speed st)]))"

definition request_of :: "string \<Rightarrow> client_state \<Rightarrow> json" where
  "request_of command s =
     wire (JObj [(''command'', JStr command), (''currentState'', ship_json (shipState s))])"

text \<open>The component's \<^verbatim>\<open>fetch\<close> of the route: the request body goes over the wire
  to \<^verbatim>\<open>POST\<close>, and the body of the route's answer goes over the wire back to the
  component, which reads it with \<^verbatim>\<open>response.json()\<close>.\<close>

definition submit :: "bool \<Rightarrow> completion \<Rightarrow> interpretation_reply \<Rightarrow> string \<Rightarrow> client_state
    \<Rightarrow> http_response" where
  "submit api_key correction interpretation command s =
     (let r = POST api_key (Some (request_of command s)) correction interpretation
      in \<lparr>status = status r, body = wire (body r)\<rparr>)"

text \<open>A transcript through the whole pipeline: the component calls the route, the route
  the two completions, and the component applies the answer it receives.\<close>

definition pipeline ::
    "audio_env \<Rightarrow> bool \<Rightarrow> completion \<Rightarrow> interpretation_reply \<Rightarrow> string \<Rightarrow> client_state \<Rightarrow> run"
    where
  "pipeline env api_key correction interpretation command s =
     (let r = submit api_key correction interpretation command s
      in processCommand env (FetchResponse (status r) (Some (body r))) command s)"

subsection \<open>The formatter as the specification words it\<close>

text \<open>The pronunciation table as a total function on digits.\<close>

definition spec_digit_word :: "nat \<Rightarrow> string" where
  "spec_digit_word d =
     (if d = 0 then ''zero'' else if d = 1 then ''one'' else if d = 2 then ''two''
      else if d = 3 then ''three'' else if d = 4 then ''four'' else if d = 5 then ''five''
      else if d = 6 then ''six'' else if d = 7 then ''seven'' else if d = 8 then ''eight''
      else ''niner'')"

text \<open>Zero-pad to three digits, pronounce each digit, join by single spaces.\<close>

definition spec_formatCourse :: "int \<Rightarrow> string" where
  "spec_formatCourse c =
     spec_digit_word (nat c div 100) @ '' '' @ spec_digit_word (nat c div 10 mod 10)
       @ '' '' @ spec_digit_word (nat c mod 10)"

text \<open>The bucket of a vocabulary table for a magnitude: the name whose threshold
  (the absolute value of its entry) is the highest one not above the magnitude.\<close>

fun spec_bucket :: "(string \<times> int) list \<Rightarrow> int \<Rightarrow> (string \<times> int) option" where
  "spec_bucket [] a = None"
| "spec_bucket ((name, v) # rest) a =
     (case spec_bucket rest a of
        None \<Rightarrow> (if \<bar>v\<bar> \<le> a then Some (name, \<bar>v\<bar>) else None)
      | Some (name', t) \<Rightarrow>
          (if \<bar>v\<bar> \<le> a \<and> t \<le> \<bar>v\<bar> then Some (name, \<bar>v\<bar>) else Some (name', t)))"

definition spec_speedBucketName :: "int \<Rightarrow> string option" where
  "spec_speedBucketName p =
     map_option fst (spec_bucket (if p < 0 then SPEED_ASTERN else SPEED_AHEAD) \<bar>p\<bar>)"

text \<open>The failures of a submission that the specification lists: the correction fails
  (the call throws or gives no content), the interpretation cannot be parsed (the call
  throws, gives no content, or gives text that is no JSON), or the parsed interpretation
  lacks a required field.\<close>

definition spec_failed_reply :: "completion \<Rightarrow> interpretation_reply \<Rightarrow> bool" where
  "spec_failed_reply correction interpretation =
     (case correction of
        CompletionThrows m \<Rightarrow> True
      | CompletionContent content \<Rightarrow>
          content = None \<or> content = Some [] \<or>
          (case interpretation of
             ReplyParsed v \<Rightarrow>
               \<not> truthy (own_prop v ''stateUpdates'') \<or> \<not> truthy (own_prop v ''response'')
           | _ \<Rightarrow> True))"

text \<open>Upper case of a lower-case ASCII name, as the display writes bucket names.\<close>

definition upper_char :: "char \<Rightarrow> char" where
  "upper_char c =
     (case map_of (zip ''abcdefghijklmnopqrstuvwxyz'' ''ABCDEFGHIJKLMNOPQRSTUVWXYZ'') c of
        None \<Rightarrow> c | Some u \<Rightarrow> u)"

section \<open>Properties of the formatter\<close>

lemma nat_toString_1: "n < 10 \<Longrightarrow> nat_toString n = [digit_char n]"
  by (simp add: nat_toString.simps)

lemma nat_toString_2:
  assumes "10 \<le> n" "n < 100"
  shows "nat_toString n = [digit_char (n div 10), digit_char (n mod 10)]"
proof -
  from assms have "n div 10 < 10" by simp
  then have "nat_toString (n div 10) = [digit_char (n div 10)]" by (rule nat_toString_1)
  with assms show ?thesis by (subst nat_toString.simps) simp
qed

lemma nat_toString_3:
  assumes "100 \<le> n" "n < 1000"
  shows "nat_toString n =
           [digit_char (n div 100), digit_char (n div 10 mod 10), digit_char (n mod 10)]"
proof -
  from assms have "10 \<le> n div 10" "n div 10 < 100" by simp_all
  then have "nat_toString (n div 10) =
      [digit_char (n div 10 div 10), digit_char (n div 10 mod 10)]"
    by (rule nat_toString_2)
  moreover have "n div 10 div 10 = n div 100" by (simp add: div_mult2_eq)
  ultimately show ?thesis using assms by (subst nat_toString.simps) simp
qed

lemma digit_cases:
  "d < 10 \<Longrightarrow> d = 0 \<or> d = 1 \<or> d = 2 \<or> d = 3 \<or> d = 4 \<or> d = 5 \<or> d = 6 \<or> d = 7 \<or> d = 8 \<or> d = (9::nat)"
  by arith

lemma naval_digit_digit_char:
  assumes "d < 10"
  shows "naval_digit (digit_char d) = Some (spec_digit_word d)"
  using digit_cases [OF assms]
  by (elim disjE)
     (simp_all add: naval_digit_def parseInt_char_def digit_char_def NAVAL_NUMBERS_def
        spec_digit_word_def)

lemma naval_digit_zero: "naval_digit CHR ''0'' = Some ''zero''"
  by (simp add: naval_digit_def parseInt_char_def NAVAL_NUMBERS_def)

lemma sint_small:
  "- 1000 < c \<Longrightarrow> c < 1000 \<Longrightarrow> sint (of_int c :: 54 word) = c"
  by (simp add: sint_sbintrunc' signed_take_bit_int_eq_self)

lemma sint_of_nat_small: "n < 1000 \<Longrightarrow> sint (of_nat n :: 54 word) = int n"
  using sint_small [of "int n"] by simp

lemma formatNavalCourse_nat:
  assumes "n < 1000"
  shows "formatNavalCourse (Some (JInt (int n))) =
           Inr (spec_digit_word (n div 100) @ '' '' @ spec_digit_word (n div 10 mod 10)
                  @ '' '' @ spec_digit_word (n mod 10))"
proof -
  from assms have "js_toString (JNum (Integer (of_nat n))) = Some (nat_toString n)"
    by (simp add: sint_of_nat_small int_toString_def)
  then have fmt: "formatNavalCourse (Some (JInt (int n))) =
      Inr (join_words '' '' (map naval_digit (padStart3 (nat_toString n))))"
    by (simp add: formatNavalCourse_def)
  consider "n < 10" | "10 \<le> n" "n < 100" | "100 \<le> n" "n < 1000"
    using assms by linarith
  then show ?thesis
  proof cases
    case 1
    then have "padStart3 (nat_toString n) = [CHR ''0'', CHR ''0'', digit_char n]"
      by (simp add: padStart3_def nat_toString_1 numeral_3_eq_3)
    moreover from 1 have "n div 100 = 0" "n div 10 mod 10 = 0" "n mod 10 = n" by simp_all
    ultimately show ?thesis using 1 unfolding fmt
      by (simp add: naval_digit_zero naval_digit_digit_char spec_digit_word_def)
  next
    case 2
    then have "padStart3 (nat_toString n) =
        [CHR ''0'', digit_char (n div 10), digit_char (n mod 10)]"
      by (simp add: padStart3_def nat_toString_2)
    moreover from 2 have "n div 100 = 0" "n div 10 mod 10 = n div 10" "n div 10 < 10"
      by simp_all
    ultimately show ?thesis unfolding fmt
      by (simp add: naval_digit_zero naval_digit_digit_char spec_digit_word_def)
  next
    case 3
    then have "padStart3 (nat_toString n) =
        [digit_char (n div 100), digit_char (n div 10 mod 10), digit_char (n mod 10)]"
      by (simp add: padStart3_def nat_toString_3)
    moreover from 3 have "n div 100 < 10" by simp
    ultimately show ?thesis unfolding fmt
      by (simp add: naval_digit_digit_char)
  qed
qed

text \<open>
  Claim C7. For every integer course \<open>c\<close> from 0 to 359, \<^verbatim>\<open>formatNavalCourse\<close> returns
  exactly three pronunciation words joined by single spaces: the words of the hundreds,
  tens and units digits of \<open>c\<close> zero-padded to three digits, each taken from the naval
  pronunciation table. In particular 9 gives "zero zero niner" and 180 gives
  "one eight zero".
\<close>

theorem formatNavalCourse_three_words:
  "(\<forall>c. 0 \<le> c \<and> c \<le> 359 \<longrightarrow> formatNavalCourse (Some (JInt c)) = Inr (spec_formatCourse c))
   \<and> formatNavalCourse (Some (JInt 9)) = Inr ''zero zero niner''
   \<and> formatNavalCourse (Some (JInt 180)) = Inr ''one eight zero''"
proof -
  have gen: "formatNavalCourse (Some (JInt c)) = Inr (spec_formatCourse c)"
    if "0 \<le> c" "c \<le> 359" for c
  proof -
    from that have "nat c < 1000" by simp
    from formatNavalCourse_nat [OF this] that show ?thesis
      by (simp add: spec_formatCourse_def)
  qed
  have "formatNavalCourse (Some (JInt 9)) = Inr (spec_formatCourse 9)"
    by (rule gen) simp_all
  moreover have "formatNavalCourse (Some (JInt 180)) = Inr (spec_formatCourse 180)"
    by (rule gen) simp_all
  ultimately show ?thesis using gen
    by (simp add: spec_formatCourse_def spec_digit_word_def)
qed

theorem formatNavalCourse_three_words_witness:
  "(0::int) \<le> 90 \<and> (90::int) \<le> 359
   \<and> formatNavalCourse (Some (JInt 90)) = Inr ''zero niner zero''"
proof -
  have r: "(0::int) \<le> 90 \<and> (90::int) \<le> 359" by simp
  from mp [OF formatNavalCourse_three_words [THEN conjunct1, THEN spec, of 90] r]
  have "formatNavalCourse (Some (JInt 90)) = Inr (spec_formatCourse 90)" .
  with r show ?thesis
    by (simp add: spec_formatCourse_def spec_digit_word_def)
qed


section \<open>The merge of a state delta\<close>

lemma truthy_defined: "truthy v \<Longrightarrow> \<exists>y. v = Some y"
  by (cases v) simp_all

lemma own_prop_wire: "own_prop (wire v) k = map_option wire (own_prop v k)"
proof (cases v)
  case (JObj kvs)
  have "map_of (map (\<lambda>(k, v). (k, wire v)) kvs) k = map_option wire (map_of kvs k)"
    by (induction kvs) auto
  with JObj show ?thesis by simp
next
  case (JNum x)
  then show ?thesis by (cases x) simp_all
qed simp_all

lemma wire_keeps_falsy: "\<not> truthy x \<Longrightarrow> \<not> truthy (map_option wire x)"
proof (cases x)
  case None
  then show ?thesis by simp
next
  case (Some v)
  assume "\<not> truthy x"
  with Some show ?thesis
  proof (cases v)
    case (JNum n)
    assume "\<not> truthy x" "x = Some v"
    with JNum show ?thesis by (cases n) simp_all
  qed simp_all
qed

lemma apply_result_ok:
  assumes "ok st" "\<not> truthy (own_prop result ''error'')" "result \<noteq> JNull"
  shows "apply_result (FetchResponse st (Some result)) cmd s = Inr (update_state result cmd s)"
  using assms by (cases result) (auto simp: apply_result_def split: option.splits)

lemma apply_result_failed:
  assumes "\<not> ok st \<or> (\<exists>r. b = Some r \<and> truthy (own_prop r ''error''))"
  shows "\<exists>e. apply_result (FetchResponse st b) cmd s = Inl e \<and> e \<noteq> Thrown"
proof (cases "ok st")
  case False
  then show ?thesis by (simp add: apply_result_def)
next
  case True
  with assms obtain r where r: "b = Some r" "truthy (own_prop r ''error'')" by blast
  then obtain kvs where "r = JObj kvs" by (cases r) simp_all
  with r True show ?thesis
    by (auto simp: apply_result_def error_of_def split: option.splits dest: truthy_defined)
qed

lemma processCommand_failed:
  assumes "\<not> processingCommand s" "apply_result f cmd (s\<lparr>processingCommand := True\<rparr>) = Inl e"
  shows "processCommand env f cmd s = Returned (s\<lparr>toasts := command_error_toast e # toasts s\<rparr>)"
  using assms by (simp add: processCommand_def)

lemma js_trim_left_20: "js_trim ''Helm, left 20 degrees rudder'' = ''Helm, left 20 degrees rudder''"
  by (simp add: js_trim_def is_space_def)

text \<open>A key that the delta omits is \<^verbatim>\<open>undefined\<close>, which is not strictly equal to
  null: the merge assigns it, and the field of the ship state becomes
  \<^verbatim>\<open>undefined\<close>. The route's reply is asked to hold a number or null in each field.\<close>

lemma merge_omitted_fields:
  "merge st (JObj []) = \<lparr>rudder = None, course = None, speed = None\<rparr>"
  by (simp add: merge_def not_null_def)




section \<open>A delta without a course\<close>

lemma truthy_not_null_undefined: "truthy (Some u) \<Longrightarrow> get_prop (Some u) k = Inr (own_prop u k)"
  by (cases u) simp_all

lemma finish_absent_course:
  assumes "own_prop v ''stateUpdates'' = Some u" "truthy (Some u)"
    "truthy (own_prop v ''response'')" "own_prop u ''course'' = None"
  shows "finish_interpretation c cc v =
           Inl (TypeError ''Cannot read properties of undefined (reading toString)'')"
proof -
  from assms(1) obtain kvs where v: "v = JObj kvs" by (cases v) simp_all
  show ?thesis using assms
    by (simp add: v finish_interpretation_def truthy_not_null_undefined not_null_def
          formatNavalCourse_def Let_def)
qed


lemma POST_finish_throws:
  assumes "\<And>c cc. finish_interpretation c cc v = Inl e"
  shows "\<not> ok (status (POST api_key b correction (ReplyParsed v)))
         \<and> truthy (own_prop (body (POST api_key b correction (ReplyParsed v))) ''error'')"
  using assms
  by (simp add: POST_def interpret_command_def error_response_def ok_def Let_def
        split: option.splits sum.splits completion.splits)

text \<open>
  Claim C10. Take an interpreter response that passes structure validation (its
  \<^verbatim>\<open>stateUpdates\<close> and \<^verbatim>\<open>response\<close> are both truthy) and whose
  \<^verbatim>\<open>stateUpdates\<close> has no \<^verbatim>\<open>course\<close> property at all. The course post-processing
  step then hands \<^verbatim>\<open>undefined\<close> to the course formatter, which throws; whatever the
  request, the route does not answer with success, and a request that reaches the step is
  answered with status 500 and an error. The same response with an explicit null course
  succeeds.
\<close>

theorem absent_course_fails:
  "(\<forall>v u. own_prop v ''stateUpdates'' = Some u \<and> truthy (Some u)
        \<and> truthy (own_prop v ''response'') \<and> own_prop u ''course'' = None \<longrightarrow>
      (\<forall>c cc. finish_interpretation c cc v =
          Inl (TypeError ''Cannot read properties of undefined (reading toString)''))
      \<and> (\<forall>api_key b correction.
            \<not> ok (status (POST api_key b correction (ReplyParsed v)))
            \<and> truthy (own_prop (body (POST api_key b correction (ReplyParsed v))) ''error''))
      \<and> (\<forall>cmd s content. cmd \<noteq> [] \<and> content \<noteq> [] \<longrightarrow>
            submit True (CompletionContent (Some content)) (ReplyParsed v) cmd s =
              error_response 500 (''Failed to process command: ''
                 @ ''Cannot read properties of undefined (reading toString)'')))
   \<and> status (submit True (CompletionContent (Some ''Helm, meet her''))
        (ReplyParsed (JObj [(''stateUpdates'',
             JObj [(''rudder'', JInt 0), (''course'', JNull), (''speed'', JNull)]),
           (''response'', JStr ''meet her, aye aye'')]))
        ''helm meet her'' initial_state) = 200"
proof -
  have a: "finish_interpretation c cc v =
          Inl (TypeError ''Cannot read properties of undefined (reading toString)'')"
    if "own_prop v ''stateUpdates'' = Some u" "truthy (Some u)"
       "truthy (own_prop v ''response'')" "own_prop u ''course'' = None" for v u c cc
    using that by (rule finish_absent_course)
  have c: "submit True (CompletionContent (Some content)) (ReplyParsed v) cmd s =
              error_response 500 (''Failed to process command: ''
                 @ ''Cannot read properties of undefined (reading toString)'')"
    if "own_prop v ''stateUpdates'' = Some u" "truthy (Some u)"
       "truthy (own_prop v ''response'')" "own_prop u ''course'' = None"
       "cmd \<noteq> []" "content \<noteq> []" for v u cmd s content
    using that a [OF that(1-4)]
    by (simp add: submit_def POST_def request_of_def interpret_command_def Let_def
          error_response_def)
  have d: "status (submit True (CompletionContent (Some ''Helm, meet her''))
        (ReplyParsed (JObj [(''stateUpdates'',
             JObj [(''rudder'', JInt 0), (''course'', JNull), (''speed'', JNull)]),
           (''response'', JStr ''meet her, aye aye'')]))
        ''helm meet her'' initial_state) = 200"
    by (simp add: submit_def POST_def request_of_def interpret_command_def Let_def
          finish_interpretation_def not_null_def)
  show ?thesis
    apply (intro conjI allI impI)
    subgoal for v u c cc by (rule a) auto
    subgoal for v u api_key b correction
      using POST_finish_throws [of v _ api_key b correction] a [of v u] by blast
    subgoal for v u api_key b correction
      using POST_finish_throws [of v _ api_key b correction] a [of v u] by blast
    subgoal for v u cmd s content by (rule c) auto
    subgoal by (rule d)
    done
qed

theorem absent_course_fails_witness:
  "submit True (CompletionContent (Some ''Helm, all ahead full''))
     (ReplyParsed (JObj [(''stateUpdates'', JObj [(''speed'', JInt 90)]),
        (''response'', JStr ''all ahead full, aye aye'')]))
     ''helm all ahead full'' initial_state
   = error_response 500
       ''Failed to process command: Cannot read properties of undefined (reading toString)''"
  using absent_course_fails
  by (simp add: own_prop.simps)


section \<open>Failed submissions\<close>

lemma error_response_simps [simp]:
  "status (error_response st m) = st"
  "own_prop (body (error_response st m)) ''error'' = Some (JStr m)"
  by (simp_all add: error_response_def)

lemma finish_success:
  assumes "finish_interpretation c cc v = Inr r"
  shows "status r = 200"
    and "own_prop (body r) ''correctedCommand'' = Some (JStr cc)"
    and "own_prop (body r) ''error'' = own_prop v ''error''"
    and "own_prop (body r) ''stateUpdates'' = own_prop v ''stateUpdates''"
    and "truthy (own_prop v ''stateUpdates'')"
    and "truthy (own_prop v ''response'')"
    and "body r \<noteq> JNull"
  using assms
  by (auto simp: finish_interpretation_def Let_def update_conv'
        split: sum.splits if_splits json.splits option.splits)

lemma failing_answerI:
  "st = 400 \<or> st = 500 \<Longrightarrow> m \<noteq> [] \<Longrightarrow>
     \<exists>st' m'. error_response st m = error_response st' m' \<and> \<not> ok st' \<and> m' \<noteq> []"
proof -
  assume "st = 400 \<or> st = 500" "m \<noteq> []"
  then have "error_response st m = error_response st m \<and> \<not> ok st \<and> m \<noteq> []"
    by (auto simp: ok_def)
  then show ?thesis by blast
qed

lemma POST_outcome:
  "(\<exists>st m. POST k b c i = error_response st m \<and> \<not> ok st \<and> m \<noteq> [])
   \<or> (\<exists>cmd content v. c = CompletionContent (Some content) \<and> content \<noteq> []
        \<and> i = ReplyParsed v
        \<and> finish_interpretation cmd (js_trim content) v = Inr (POST k b c i))"
  by (auto simp: POST_def interpret_command_def Let_def
        split: option.splits sum.splits completion.splits interpretation_reply.splits
        intro!: failing_answerI)

lemma POST_failed_reply:
  assumes "spec_failed_reply c i"
  shows "\<exists>st m. POST k b c i = error_response st m \<and> \<not> ok st \<and> m \<noteq> []"
proof -
  from POST_outcome [of k b c i] show ?thesis
  proof
    assume "\<exists>cmd content v. c = CompletionContent (Some content) \<and> content \<noteq> []
        \<and> i = ReplyParsed v
        \<and> finish_interpretation cmd (js_trim content) v = Inr (POST k b c i)"
    then obtain cmd content v where h: "c = CompletionContent (Some content)" "content \<noteq> []"
        "i = ReplyParsed v" "finish_interpretation cmd (js_trim content) v = Inr (POST k b c i)"
      by blast
    from finish_success(5,6) [OF h(4)] assms h(1-3) show ?thesis
      by (simp add: spec_failed_reply_def)
  qed
qed

lemma submit_status: "status (submit k c i cmd s) =
    status (POST k (Some (request_of cmd s)) c i)"
  by (simp add: submit_def Let_def)

lemma submit_body: "body (submit k c i cmd s) =
    wire (body (POST k (Some (request_of cmd s)) c i))"
  by (simp add: submit_def Let_def)

lemma submit_failed_reply:
  assumes "spec_failed_reply c i"
  shows "\<not> ok (status (submit k c i cmd s))
         \<and> truthy (own_prop (body (submit k c i cmd s)) ''error'')"
proof -
  from POST_failed_reply [OF assms, of k "Some (request_of cmd s)"]
  obtain st m where "POST k (Some (request_of cmd s)) c i = error_response st m"
      "\<not> ok st" "m \<noteq> []"
    by blast
  then show ?thesis
    by (simp add: submit_status submit_body own_prop_wire)
qed

lemma processCommand_not_ok:
  assumes "\<not> processingCommand s" "\<not> ok code"
  shows "processCommand env (FetchResponse code b) cmd s =
           Returned (s\<lparr>toasts := Toast ''Command Error'' ''Failed to process command'' # toasts s\<rparr>)"
  using assms by (simp add: processCommand_def apply_result_def command_error_toast_def)

text \<open>
  Claim C4, as stated, fails for an error field that is there but falsy. An interpreter
  reply that carries \<^verbatim>\<open>error: ""\<close> beside its state updates is forwarded by the
  route's spread with status 200; the component tests \<^verbatim>\<open>if (result.error)\<close>, finds
  the empty string falsy, and merges and logs the command without any notification.
\<close>

theorem falsy_error_field_is_applied:
  "own_prop (body (submit True (CompletionContent (Some ''Helm, left 20 degrees rudder''))
      (ReplyParsed (JObj [(''stateUpdates'',
           JObj [(''rudder'', JInt (- 20)), (''course'', JNull), (''speed'', JNull)]),
         (''response'', JStr ''left 20 degrees rudder, aye aye''),
         (''error'', JStr [])]))
      ''helm left 20'' initial_state)) ''error'' = Some (JStr [])
   \<and> pipeline \<lparr>elevenlabs_key = False, primary = PrimaryFetchThrows, voices = [],
         utterance = UtteranceEnd\<rparr> True
      (CompletionContent (Some ''Helm, left 20 degrees rudder''))
      (ReplyParsed (JObj [(''stateUpdates'',
           JObj [(''rudder'', JInt (- 20)), (''course'', JNull), (''speed'', JNull)]),
         (''response'', JStr ''left 20 degrees rudder, aye aye''),
         (''error'', JStr [])]))
      ''helm left 20'' initial_state
     = Returned (initial_state
         \<lparr>shipState := \<lparr>rudder = Some (JInt (- 20)), course = Some (JInt 0),
             speed = Some (JInt 0)\<rparr>,
          lastCommand := JStr ''Helm, left 20 degrees rudder'',
          commandLog := [JStr ''Helm, left 20 degrees rudder''],
          screenResponse := Some (JStr ''left 20 degrees rudder, aye aye''),
          spoken := [SecondarySpeech (Some (JStr ''left 20 degrees rudder, aye aye'')) None]\<rparr>)"
  by (simp add: pipeline_def submit_def POST_def request_of_def interpret_command_def
        finish_interpretation_def not_null_def Let_def js_trim_left_20 ok_def
        processCommand_def apply_result_def update_state_def merge_def
        playAudioResponse_def preferredVoice_def initial_state_def ship_json_def)

text \<open>
  Claim C4, amended. Every command submission whose answer has a status outside 200 to
  299, or carries an error field with a truthy value (a non-empty message, as in every
  failing answer of the route), leaves the ship state, the command log and every other
  cell of the component as they were; the failure is shown as one "Command Error"
  notification and the call returns normally with the gate released. The failures of the
  route (correction failure, interpretation parse failure, missing required fields) are
  such answers: a status that is not a success, with a non-empty error message.
\<close>

theorem failed_submission_has_no_effect:
  "(\<not> processingCommand s
      \<and> (\<not> ok code \<or> (\<exists>r. b = Some r \<and> truthy (own_prop r ''error''))) \<longrightarrow>
      (\<exists>d. processCommand env (FetchResponse code b) cmd s =
             Returned (s\<lparr>toasts := Toast ''Command Error'' d # toasts s\<rparr>)))
   \<and> (\<not> processingCommand s \<and> spec_failed_reply c i \<longrightarrow>
        \<not> ok (status (submit k c i cmd s))
        \<and> truthy (own_prop (body (submit k c i cmd s)) ''error'')
        \<and> pipeline env k c i cmd s =
             Returned (s\<lparr>toasts :=
               Toast ''Command Error'' ''Failed to process command'' # toasts s\<rparr>))"
proof (intro conjI impI)
  assume h: "\<not> processingCommand s
      \<and> (\<not> ok code \<or> (\<exists>r. b = Some r \<and> truthy (own_prop r ''error'')))"
  then obtain e where e:
      "apply_result (FetchResponse code b) cmd (s\<lparr>processingCommand := True\<rparr>) = Inl e"
      "e \<noteq> Thrown"
    using apply_result_failed by blast
  from h e(1) have "processCommand env (FetchResponse code b) cmd s =
      Returned (s\<lparr>toasts := command_error_toast e # toasts s\<rparr>)"
    by (simp add: processCommand_failed)
  moreover from e(2) have "command_error_toast e = Toast ''Command Error'' (message e)"
    by (cases e) (simp_all add: command_error_toast_def)
  ultimately show "\<exists>d. processCommand env (FetchResponse code b) cmd s =
             Returned (s\<lparr>toasts := Toast ''Command Error'' d # toasts s\<rparr>)"
    by auto
next
  assume h: "\<not> processingCommand s \<and> spec_failed_reply c i"
  then have f: "\<not> ok (status (submit k c i cmd s))
        \<and> truthy (own_prop (body (submit k c i cmd s)) ''error'')"
    using submit_failed_reply by blast
  from f show "\<not> ok (status (submit k c i cmd s))" by simp
  from f show "truthy (own_prop (body (submit k c i cmd s)) ''error'')" by simp
  from f h show "pipeline env k c i cmd s =
             Returned (s\<lparr>toasts :=
               Toast ''Command Error'' ''Failed to process command'' # toasts s\<rparr>)"
    by (simp add: pipeline_def Let_def processCommand_not_ok)
qed

theorem failed_submission_has_no_effect_witness:
  "\<not> processingCommand initial_state
   \<and> spec_failed_reply (CompletionContent None) ReplyNoContent
   \<and> truthy (own_prop (JObj [(''error'', JStr ''Command is required'')]) ''error'')
   \<and> pipeline \<lparr>elevenlabs_key = False, primary = PrimaryFetchThrows, voices = [],
         utterance = UtteranceEnd\<rparr> True (CompletionContent None) ReplyNoContent
        ''helm left 20'' initial_state
      = Returned (initial_state\<lparr>toasts :=
           [Toast ''Command Error'' ''Failed to process command'']\<rparr>)
   \<and> (\<exists>d. processCommand \<lparr>elevenlabs_key = False, primary = PrimaryFetchThrows, voices = [],
         utterance = UtteranceEnd\<rparr>
         (FetchResponse 200 (Some (JObj [(''error'', JStr ''Command is required'')])))
         ''helm left 20'' initial_state
      = Returned (initial_state\<lparr>toasts := [Toast ''Command Error'' d]\<rparr>))"
proof -
  have a: "\<not> processingCommand initial_state" by (simp add: initial_state_def)
  have b: "spec_failed_reply (CompletionContent None) ReplyNoContent"
    by (simp add: spec_failed_reply_def)
  have c: "truthy (own_prop (JObj [(''error'', JStr ''Command is required'')]) ''error'')"
    by simp
  have t: "toasts initial_state = []" by (simp add: initial_state_def)
  note w = failed_submission_has_no_effect
    [where s = initial_state and c = "CompletionContent None" and i = ReplyNoContent
       and k = True and cmd = "''helm left 20''" and code = 200
       and b = "Some (JObj [(''error'', JStr ''Command is required'')])"
       and env = "\<lparr>elevenlabs_key = False, primary = PrimaryFetchThrows, voices = [],
         utterance = UtteranceEnd\<rparr>"]
  from w a b c have
    "pipeline \<lparr>elevenlabs_key = False, primary = PrimaryFetchThrows, voices = [],
         utterance = UtteranceEnd\<rparr> True (CompletionContent None) ReplyNoContent
        ''helm left 20'' initial_state
      = Returned (initial_state\<lparr>toasts :=
           Toast ''Command Error'' ''Failed to process command'' # toasts initial_state\<rparr>)"
    by blast
  moreover from w a c have
    "\<exists>d. processCommand \<lparr>elevenlabs_key = False, primary = PrimaryFetchThrows, voices = [],
         utterance = UtteranceEnd\<rparr>
         (FetchResponse 200 (Some (JObj [(''error'', JStr ''Command is required'')])))
         ''helm left 20'' initial_state
      = Returned (initial_state\<lparr>toasts := Toast ''Command Error'' d # toasts initial_state\<rparr>)"
    by blast
  ultimately show ?thesis using a b c t by simp
qed


section \<open>Unvalidated values and the command log\<close>

lemma processCommand_applied:
  assumes "\<not> processingCommand s"
    "apply_result f cmd (s\<lparr>processingCommand := True\<rparr>) = Inr s1"
  shows "shipState (state_of (processCommand env f cmd s)) = shipState s1"
    and "commandLog (state_of (processCommand env f cmd s)) = commandLog s1"
    and "lastCommand (state_of (processCommand env f cmd s)) = lastCommand s1"
    and "screenResponse (state_of (processCommand env f cmd s)) = screenResponse s1"
  using assms
  by (simp_all add: processCommand_def Let_def split: prod.splits settled.splits)

lemma update_state_fields:
  "commandLog (update_state result cmd s) =
     take 5 ((case own_prop result ''correctedCommand'' of None \<Rightarrow> JStr cmd
              | Some c \<Rightarrow> if truthy (Some c) then c else JStr cmd) # commandLog s)"
  "shipState (update_state result cmd s) =
     (case own_prop result ''stateUpdates'' of None \<Rightarrow> shipState s
      | Some u \<Rightarrow> if truthy (Some u) then merge (shipState s) u else shipState s)"
  by (simp_all add: update_state_def Let_def split: option.splits)

lemma submit_finish:
  assumes "cmd \<noteq> []" "content \<noteq> []"
  shows "submit True (CompletionContent (Some content)) (ReplyParsed v) cmd s =
     (case finish_interpretation (JStr cmd) (js_trim content) v of
        Inl e \<Rightarrow> error_response 500 (''Failed to process command: '' @ message e)
      | Inr r \<Rightarrow> \<lparr>status = status r, body = wire (body r)\<rparr>)"
  using assms
  by (simp add: submit_def POST_def request_of_def interpret_command_def Let_def
        error_response_def split: sum.splits)

lemma wire_object: "own_prop u k = Some x \<Longrightarrow> \<exists>kvs. wire u = JObj kvs"
  by (cases u) simp_all

lemma finish_body_object:
  "finish_interpretation c cc v = Inr r \<Longrightarrow> \<exists>kvs. body r = JObj kvs"
  by (auto simp: finish_interpretation_def Let_def
        split: sum.splits if_splits json.splits option.splits)

lemma finish_numeric_course:
  assumes "own_prop v ''stateUpdates'' = Some u" "truthy (Some u)"
    "own_prop v ''response'' = Some (JStr resp)" "resp \<noteq> []"
    "own_prop u ''course'' = Some JNull \<or> (\<exists>x. own_prop u ''course'' = Some (JNum x))"
  shows "\<exists>r. finish_interpretation c cc v = Inr r"
proof -
  from assms(1) obtain kvs where v: "v = JObj kvs" by (cases v) simp_all
  from assms show ?thesis
    by (auto simp: v finish_interpretation_def truthy_not_null_undefined not_null_def
          formatNavalCourse_def Let_def)
qed

lemma pipeline_success:
  assumes "\<not> processingCommand s" "cmd \<noteq> []" "content \<noteq> []"
    "finish_interpretation (JStr cmd) (js_trim content) v = Inr r"
    "\<not> truthy (own_prop v ''error'')"
  shows "submit True (CompletionContent (Some content)) (ReplyParsed v) cmd s =
           \<lparr>status = status r, body = wire (body r)\<rparr>"
    and "commandLog (state_of (pipeline env True (CompletionContent (Some content))
            (ReplyParsed v) cmd s)) =
         take 5 ((if js_trim content = [] then JStr cmd else JStr (js_trim content))
                   # commandLog s)"
    and "own_prop v ''stateUpdates'' = Some u \<Longrightarrow> own_prop u k = Some x \<Longrightarrow>
         shipState (state_of (pipeline env True (CompletionContent (Some content))
            (ReplyParsed v) cmd s)) = merge (shipState s) (wire u)"
proof -
  show r: "submit True (CompletionContent (Some content)) (ReplyParsed v) cmd s =
      \<lparr>status = status r, body = wire (body r)\<rparr>"
    using assms by (simp add: submit_finish)
  note fs = finish_success [OF assms(4)]
  from finish_body_object [OF assms(4)] have nn: "wire (body r) \<noteq> JNull" by auto
  have ne: "\<not> truthy (own_prop (wire (body r)) ''error'')"
    using fs(3) assms(5) by (simp add: own_prop_wire wire_keeps_falsy)
  have ap: "apply_result (FetchResponse (status r) (Some (wire (body r)))) cmd
        (s\<lparr>processingCommand := True\<rparr>)
      = Inr (update_state (wire (body r)) cmd (s\<lparr>processingCommand := True\<rparr>))"
    using fs(1) ne nn by (intro apply_result_ok) (simp_all add: ok_def)
  show "commandLog (state_of (pipeline env True (CompletionContent (Some content))
            (ReplyParsed v) cmd s)) =
         take 5 ((if js_trim content = [] then JStr cmd else JStr (js_trim content))
                   # commandLog s)"
    using processCommand_applied(2) [OF assms(1) ap] fs(2)
    by (simp add: pipeline_def Let_def r update_state_fields own_prop_wire)
  show "shipState (state_of (pipeline env True (CompletionContent (Some content))
            (ReplyParsed v) cmd s)) = merge (shipState s) (wire u)"
    if "own_prop v ''stateUpdates'' = Some u" "own_prop u k = Some x"
  proof -
    from wire_object [OF that(2)] obtain kvs where "wire u = JObj kvs" by blast
    then have "truthy (Some (wire u))" by simp
    with processCommand_applied(1) [OF assms(1) ap] fs(4) that(1) show ?thesis
      by (simp add: pipeline_def Let_def r update_state_fields own_prop_wire)
  qed
qed

lemma js_trim_ex1: "js_trim ''Helm, right 90 degrees rudder'' = ''Helm, right 90 degrees rudder''"
  by (simp add: js_trim_def is_space_def)

lemma js_trim_ex2: "js_trim ''  '' = []"
  by (simp add: js_trim_def is_space_def)

text \<open>
  Claim C1, as stated, fails: neither the route nor the component checks a range. The
  interpreter response with \<^verbatim>\<open>rudder = 90\<close> is answered with status 200, the value
  90 is written to the ship state, the command is logged and no notification is raised.
\<close>

theorem out_of_range_rudder_is_merged:
  "status (submit True (CompletionContent (Some ''Helm, right 90 degrees rudder''))
      (ReplyParsed (JObj [(''stateUpdates'',
           JObj [(''rudder'', JInt 90), (''course'', JNull), (''speed'', JNull)]),
         (''response'', JStr ''right 90 degrees rudder, aye aye'')]))
      ''helm right 90'' initial_state) = 200
   \<and> pipeline \<lparr>elevenlabs_key = False, primary = PrimaryFetchThrows, voices = [],
         utterance = UtteranceEnd\<rparr> True
      (CompletionContent (Some ''Helm, right 90 degrees rudder''))
      (ReplyParsed (JObj [(''stateUpdates'',
           JObj [(''rudder'', JInt 90), (''course'', JNull), (''speed'', JNull)]),
         (''response'', JStr ''right 90 degrees rudder, aye aye'')]))
      ''helm right 90'' initial_state
     = Returned (initial_state
         \<lparr>shipState := \<lparr>rudder = Some (JInt 90), course = Some (JInt 0), speed = Some (JInt 0)\<rparr>,
          lastCommand := JStr ''Helm, right 90 degrees rudder'',
          commandLog := [JStr ''Helm, right 90 degrees rudder''],
          screenResponse := Some (JStr ''right 90 degrees rudder, aye aye''),
          spoken := [SecondarySpeech (Some (JStr ''right 90 degrees rudder, aye aye'')) None]\<rparr>)"
  by (simp add: pipeline_def submit_def POST_def request_of_def interpret_command_def
        finish_interpretation_def not_null_def Let_def js_trim_ex1 ok_def
        processCommand_def apply_result_def update_state_def merge_def
        playAudioResponse_def preferredVoice_def initial_state_def)


text \<open>
  Claim C1, amended. The pipeline performs no range validation. For every interpreter
  response that passes structure validation, whose response text is a string, whose
  course is null or a number and which carries no truthy error field, the route answers
  with status 200, the ship state becomes the merge of the \<^verbatim>\<open>stateUpdates\<close> as they
  arrive over the wire, and the command is logged. Every finite number present in
  \<^verbatim>\<open>stateUpdates\<close>, an integer or a fraction of whatever magnitude, is written to the
  ship state as it is, neither rejected nor clamped. A number that is not finite cannot
  be carried by the JSON answer: it arrives as null, and the field keeps its value.
\<close>

theorem unvalidated_numbers_are_merged:
  "\<not> processingCommand s \<and> cmd \<noteq> [] \<and> content \<noteq> []
   \<and> own_prop v ''stateUpdates'' = Some u
   \<and> own_prop v ''response'' = Some (JStr resp) \<and> resp \<noteq> []
   \<and> (own_prop u ''course'' = Some JNull \<or> (\<exists>x. own_prop u ''course'' = Some (JNum x)))
   \<and> \<not> truthy (own_prop v ''error'')
   \<longrightarrow>
     status (submit True (CompletionContent (Some content)) (ReplyParsed v) cmd s) = 200
     \<and> shipState (state_of (pipeline env True (CompletionContent (Some content))
           (ReplyParsed v) cmd s)) = merge (shipState s) (wire u)
     \<and> commandLog (state_of (pipeline env True (CompletionContent (Some content))
           (ReplyParsed v) cmd s)) =
         take 5 ((if js_trim content = [] then JStr cmd else JStr (js_trim content))
                   # commandLog s)
     \<and> (\<forall>x. own_prop u ''rudder'' = Some (JNum x) \<longrightarrow>
           rudder (shipState (state_of (pipeline env True (CompletionContent (Some content))
             (ReplyParsed v) cmd s))) =
             (if finite_number x then Some (JNum x) else rudder (shipState s)))
     \<and> (\<forall>x. own_prop u ''course'' = Some (JNum x) \<longrightarrow>
           course (shipState (state_of (pipeline env True (CompletionContent (Some content))
             (ReplyParsed v) cmd s))) =
             (if finite_number x then Some (JNum x) else course (shipState s)))
     \<and> (\<forall>x. own_prop u ''speed'' = Some (JNum x) \<longrightarrow>
           speed (shipState (state_of (pipeline env True (CompletionContent (Some content))
             (ReplyParsed v) cmd s))) =
             (if finite_number x then Some (JNum x) else speed (shipState s)))"
proof (intro impI)
  assume h: "\<not> processingCommand s \<and> cmd \<noteq> [] \<and> content \<noteq> []
   \<and> own_prop v ''stateUpdates'' = Some u
   \<and> own_prop v ''response'' = Some (JStr resp) \<and> resp \<noteq> []
   \<and> (own_prop u ''course'' = Some JNull \<or> (\<exists>x. own_prop u ''course'' = Some (JNum x)))
   \<and> \<not> truthy (own_prop v ''error'')"
  then obtain cv where cv: "own_prop u ''course'' = Some cv" by blast
  then obtain kvs where u: "u = JObj kvs" by (cases u) simp_all
  then have tu: "truthy (Some u)" by simp
  from h tu obtain r where r: "finish_interpretation (JStr cmd) (js_trim content) v = Inr r"
    using finish_numeric_course [of v u resp] by blast
  from h have pre: "\<not> processingCommand s" "cmd \<noteq> []" "content \<noteq> []"
    "\<not> truthy (own_prop v ''error'')" "own_prop v ''stateUpdates'' = Some u"
    by simp_all
  note ps = pipeline_success [OF pre(1-3) r pre(4)]
  have st: "shipState (state_of (pipeline env True (CompletionContent (Some content))
           (ReplyParsed v) cmd s)) = merge (shipState s) (wire u)"
    by (rule ps(3)) (rule pre(5), rule cv)
  have fin: "wire (JNum x) = (if finite_number x then JNum x else JNull)" for x
    by (cases x) (simp_all add: finite_number_def)
  show "status (submit True (CompletionContent (Some content)) (ReplyParsed v) cmd s) = 200
     \<and> shipState (state_of (pipeline env True (CompletionContent (Some content))
           (ReplyParsed v) cmd s)) = merge (shipState s) (wire u)
     \<and> commandLog (state_of (pipeline env True (CompletionContent (Some content))
           (ReplyParsed v) cmd s)) =
         take 5 ((if js_trim content = [] then JStr cmd else JStr (js_trim content))
                   # commandLog s)
     \<and> (\<forall>x. own_prop u ''rudder'' = Some (JNum x) \<longrightarrow>
           rudder (shipState (state_of (pipeline env True (CompletionContent (Some content))
             (ReplyParsed v) cmd s))) =
             (if finite_number x then Some (JNum x) else rudder (shipState s)))
     \<and> (\<forall>x. own_prop u ''course'' = Some (JNum x) \<longrightarrow>
           course (shipState (state_of (pipeline env True (CompletionContent (Some content))
             (ReplyParsed v) cmd s))) =
             (if finite_number x then Some (JNum x) else course (shipState s)))
     \<and> (\<forall>x. own_prop u ''speed'' = Some (JNum x) \<longrightarrow>
           speed (shipState (state_of (pipeline env True (CompletionContent (Some content))
             (ReplyParsed v) cmd s))) =
             (if finite_number x then Some (JNum x) else speed (shipState s)))"
    unfolding st using ps(1,2) finish_success(1) [OF r]
    by (simp add: merge_def not_null_def Let_def own_prop_wire fin)
qed

theorem unvalidated_numbers_are_merged_witness:
  "status (submit True (CompletionContent (Some ''Helm, all ahead 500''))
      (ReplyParsed (JObj [(''stateUpdates'',
           JObj [(''rudder'', JNum (Decimal ''12.5'')), (''course'', JInt 400),
                 (''speed'', JInt 500)]),
         (''response'', JStr ''all ahead, aye aye'')]))
      ''helm all ahead 500'' initial_state) = 200
   \<and> speed (shipState (state_of (pipeline \<lparr>elevenlabs_key = False,
         primary = PrimaryFetchThrows, voices = [], utterance = UtteranceEnd\<rparr> True
      (CompletionContent (Some ''Helm, all ahead 500''))
      (ReplyParsed (JObj [(''stateUpdates'',
           JObj [(''rudder'', JNum (Decimal ''12.5'')), (''course'', JInt 400),
                 (''speed'', JInt 500)]),
         (''response'', JStr ''all ahead, aye aye'')]))
      ''helm all ahead 500'' initial_state))) = Some (JInt 500)
   \<and> course (shipState (state_of (pipeline \<lparr>elevenlabs_key = False,
         primary = PrimaryFetchThrows, voices = [], utterance = UtteranceEnd\<rparr> True
      (CompletionContent (Some ''Helm, all ahead 500''))
      (ReplyParsed (JObj [(''stateUpdates'',
           JObj [(''rudder'', JNum (Decimal ''12.5'')), (''course'', JInt 400),
                 (''speed'', JInt 500)]),
         (''response'', JStr ''all ahead, aye aye'')]))
      ''helm all ahead 500'' initial_state))) = Some (JInt 400)
   \<and> rudder (shipState (state_of (pipeline \<lparr>elevenlabs_key = False,
         primary = PrimaryFetchThrows, voices = [], utterance = UtteranceEnd\<rparr> True
      (CompletionContent (Some ''Helm, all ahead 500''))
      (ReplyParsed (JObj [(''stateUpdates'',
           JObj [(''rudder'', JNum (Decimal ''12.5'')), (''course'', JInt 400),
                 (''speed'', JInt 500)]),
         (''response'', JStr ''all ahead, aye aye'')]))
      ''helm all ahead 500'' initial_state))) = Some (JNum (Decimal ''12.5''))
   \<and> rudder (shipState (state_of (pipeline \<lparr>elevenlabs_key = False,
         primary = PrimaryFetchThrows, voices = [], utterance = UtteranceEnd\<rparr> True
      (CompletionContent (Some ''Helm, right 1e400''))
      (ReplyParsed (JObj [(''stateUpdates'',
           JObj [(''rudder'', JNum (Infinite False)), (''course'', JNull),
                 (''speed'', JNull)]),
         (''response'', JStr ''right rudder, aye aye'')]))
      ''helm right 1e400'' initial_state))) = Some (JInt 0)"
proof -
  let ?u = "JObj [(''rudder'', JNum (Decimal ''12.5'')), (''course'', JInt 400),
                 (''speed'', JInt 500)]"
  let ?v = "JObj [(''stateUpdates'', ?u), (''response'', JStr ''all ahead, aye aye'')]"
  let ?w = "JObj [(''rudder'', JNum (Infinite False)), (''course'', JNull),
                 (''speed'', JNull)]"
  let ?y = "JObj [(''stateUpdates'', ?w), (''response'', JStr ''right rudder, aye aye'')]"
  have pre: "\<not> processingCommand initial_state \<and> ''helm all ahead 500'' \<noteq> []
     \<and> ''Helm, all ahead 500'' \<noteq> []
     \<and> own_prop ?v ''stateUpdates'' = Some ?u
     \<and> own_prop ?v ''response'' = Some (JStr ''all ahead, aye aye'')
     \<and> ''all ahead, aye aye'' \<noteq> []
     \<and> (own_prop ?u ''course'' = Some JNull \<or> (\<exists>x. own_prop ?u ''course'' = Some (JNum x)))
     \<and> \<not> truthy (own_prop ?v ''error'')"
    by (simp add: initial_state_def)
  have sp: "own_prop ?u ''speed'' = Some (JInt 500)" "own_prop ?u ''course'' = Some (JInt 400)"
      "own_prop ?u ''rudder'' = Some (JNum (Decimal ''12.5''))"
      "finite_number (Integer (of_int 500))" "finite_number (Integer (of_int 400))"
      "finite_number (Decimal ''12.5'')"
    by (simp_all add: finite_number_def)
  have pre': "\<not> processingCommand initial_state \<and> ''helm right 1e400'' \<noteq> []
     \<and> ''Helm, right 1e400'' \<noteq> []
     \<and> own_prop ?y ''stateUpdates'' = Some ?w
     \<and> own_prop ?y ''response'' = Some (JStr ''right rudder, aye aye'')
     \<and> ''right rudder, aye aye'' \<noteq> []
     \<and> (own_prop ?w ''course'' = Some JNull \<or> (\<exists>x. own_prop ?w ''course'' = Some (JNum x)))
     \<and> \<not> truthy (own_prop ?y ''error'')"
    by (simp add: initial_state_def)
  have sp': "own_prop ?w ''rudder'' = Some (JNum (Infinite False))"
      "\<not> finite_number (Infinite False)"
      "rudder (shipState initial_state) = Some (JInt 0)"
    by (simp_all add: finite_number_def initial_state_def)
  from mp [OF unvalidated_numbers_are_merged pre] sp
  have a: "status (submit True (CompletionContent (Some ''Helm, all ahead 500''))
      (ReplyParsed ?v) ''helm all ahead 500'' initial_state) = 200"
    and b: "speed (shipState (state_of (pipeline \<lparr>elevenlabs_key = False,
         primary = PrimaryFetchThrows, voices = [], utterance = UtteranceEnd\<rparr> True
      (CompletionContent (Some ''Helm, all ahead 500'')) (ReplyParsed ?v)
      ''helm all ahead 500'' initial_state))) = Some (JInt 500)"
    and c: "course (shipState (state_of (pipeline \<lparr>elevenlabs_key = False,
         primary = PrimaryFetchThrows, voices = [], utterance = UtteranceEnd\<rparr> True
      (CompletionContent (Some ''Helm, all ahead 500'')) (ReplyParsed ?v)
      ''helm all ahead 500'' initial_state))) = Some (JInt 400)"
    and d: "rudder (shipState (state_of (pipeline \<lparr>elevenlabs_key = False,
         primary = PrimaryFetchThrows, voices = [], utterance = UtteranceEnd\<rparr> True
      (CompletionContent (Some ''Helm, all ahead 500'')) (ReplyParsed ?v)
      ''helm all ahead 500'' initial_state))) = Some (JNum (Decimal ''12.5''))"
    by metis+
  from mp [OF unvalidated_numbers_are_merged pre'] sp'
  have e: "rudder (shipState (state_of (pipeline \<lparr>elevenlabs_key = False,
         primary = PrimaryFetchThrows, voices = [], utterance = UtteranceEnd\<rparr> True
      (CompletionContent (Some ''Helm, right 1e400'')) (ReplyParsed ?y)
      ''helm right 1e400'' initial_state))) = Some (JInt 0)"
    by metis
  from a b c d e show ?thesis by blast
qed

lemma pipeline_log:
  assumes "\<not> processingCommand s" "ok (status (submit k c i cmd s))"
    "\<not> truthy (own_prop (body (submit k c i cmd s)) ''error'')"
  shows "\<exists>content. c = CompletionContent (Some content) \<and>
     commandLog (state_of (pipeline env k c i cmd s)) =
       take 5 ((if js_trim content = [] then JStr cmd else JStr (js_trim content))
                 # commandLog s)"
proof -
  let ?r = "submit k c i cmd s"
  let ?p = "POST k (Some (request_of cmd s)) c i"
  have "\<not> (\<exists>st m. ?p = error_response st m \<and> \<not> ok st \<and> m \<noteq> [])"
    using assms(2) by (auto simp: submit_status)
  with POST_outcome [of k "Some (request_of cmd s)" c i]
  obtain c' content v where h: "c = CompletionContent (Some content)"
      "finish_interpretation c' (js_trim content) v = Inr ?p"
    by blast
  note fs = finish_success [OF h(2)]
  from finish_body_object [OF h(2)] have nn: "body ?r \<noteq> JNull"
    by (auto simp: submit_body)
  have ap: "apply_result (FetchResponse (status ?r) (Some (body ?r))) cmd
        (s\<lparr>processingCommand := True\<rparr>)
      = Inr (update_state (body ?r) cmd (s\<lparr>processingCommand := True\<rparr>))"
    using assms(2,3) nn by (intro apply_result_ok) simp_all
  have "commandLog (state_of (pipeline env k c i cmd s)) =
       take 5 ((if js_trim content = [] then JStr cmd else JStr (js_trim content))
                 # commandLog s)"
    using processCommand_applied(2) [OF assms(1) ap] fs(2)
    by (simp add: pipeline_def Let_def update_state_fields submit_body own_prop_wire)
  with h(1) show ?thesis by blast
qed

lemma processCommand_log:
  "commandLog (state_of (processCommand env f cmd s)) = commandLog s
   \<or> (\<exists>entry. commandLog (state_of (processCommand env f cmd s)) =
         take 5 (entry # commandLog s))"
proof (cases "processingCommand s")
  case True
  then show ?thesis by (simp add: processCommand_def)
next
  case False
  show ?thesis
  proof (cases "apply_result f cmd (s\<lparr>processingCommand := True\<rparr>)")
    case (Inl e)
    with False show ?thesis by (simp add: processCommand_def)
  next
    case (Inr s1)
    then obtain result where "s1 = update_state result cmd (s\<lparr>processingCommand := True\<rparr>)"
      by (auto simp: apply_result_def split: fetch_outcome.splits if_splits option.splits
            sum.splits)
    with processCommand_applied(2) [OF False Inr] show ?thesis
      by (auto simp: update_state_fields)
  qed
qed

text \<open>
  Claim C9, as stated, fails on the entry that is logged: when the correction trims to
  the empty text, the route answers with an empty corrected command and the component
  logs the raw command in its place.
\<close>

theorem empty_correction_logs_raw_command:
  "own_prop (body (submit True (CompletionContent (Some ''  ''))
      (ReplyParsed (JObj [(''stateUpdates'',
           JObj [(''rudder'', JInt (- 20)), (''course'', JNull), (''speed'', JNull)]),
         (''response'', JStr ''left 20 degrees rudder, aye aye'')]))
      ''helm left 20'' initial_state)) ''correctedCommand'' = Some (JStr [])
   \<and> commandLog (state_of (pipeline \<lparr>elevenlabs_key = False, primary = PrimaryFetchThrows,
         voices = [], utterance = UtteranceEnd\<rparr> True (CompletionContent (Some ''  ''))
      (ReplyParsed (JObj [(''stateUpdates'',
           JObj [(''rudder'', JInt (- 20)), (''course'', JNull), (''speed'', JNull)]),
         (''response'', JStr ''left 20 degrees rudder, aye aye'')]))
      ''helm left 20'' initial_state)) = [JStr ''helm left 20'']"
  by (simp add: pipeline_def submit_def POST_def request_of_def interpret_command_def
        finish_interpretation_def not_null_def Let_def js_trim_ex2 ok_def
        processCommand_def apply_result_def update_state_def merge_def
        playAudioResponse_def preferredVoice_def initial_state_def ship_json_def)

text \<open>
  Claim C9, amended. On each successfully interpreted command the corrected command text,
  or the raw command when the corrected text is empty, is prepended to the command log.
  Every call of \<^verbatim>\<open>processCommand\<close> either leaves the log as it was or puts one entry
  in front of it and keeps the first five entries, so the log is ordered most recent
  first, the oldest entry is dropped when the bound would be exceeded, and a log of at
  most 5 entries stays one.
\<close>

theorem command_log_prepend_bounded:
  "(\<not> processingCommand s \<and> ok (status (submit k c i cmd s))
      \<and> \<not> truthy (own_prop (body (submit k c i cmd s)) ''error'') \<longrightarrow>
      (\<exists>content. c = CompletionContent (Some content) \<and>
         commandLog (state_of (pipeline env k c i cmd s)) =
           take 5 ((if js_trim content = [] then JStr cmd else JStr (js_trim content))
                     # commandLog s)))
   \<and> (commandLog (state_of (processCommand env f cmd s)) = commandLog s
        \<or> (\<exists>entry. commandLog (state_of (processCommand env f cmd s)) =
              take 5 (entry # commandLog s)))
   \<and> (length (commandLog s) \<le> 5 \<longrightarrow>
        length (commandLog (state_of (processCommand env f cmd s))) \<le> 5)"
proof (intro conjI impI)
  assume "\<not> processingCommand s \<and> ok (status (submit k c i cmd s))
      \<and> \<not> truthy (own_prop (body (submit k c i cmd s)) ''error'')"
  then show "\<exists>content. c = CompletionContent (Some content) \<and>
         commandLog (state_of (pipeline env k c i cmd s)) =
           take 5 ((if js_trim content = [] then JStr cmd else JStr (js_trim content))
                     # commandLog s)"
    using pipeline_log by blast
next
  show "commandLog (state_of (processCommand env f cmd s)) = commandLog s
        \<or> (\<exists>entry. commandLog (state_of (processCommand env f cmd s)) =
              take 5 (entry # commandLog s))"
    by (rule processCommand_log)
next
  assume "length (commandLog s) \<le> 5"
  with processCommand_log [of env f cmd s]
  show "length (commandLog (state_of (processCommand env f cmd s))) \<le> 5"
    by auto
qed


lemma js_trim_ex3: "js_trim ''Helm, left 20 degrees rudder'' = ''Helm, left 20 degrees rudder''"
  by (simp add: js_trim_def is_space_def)

theorem command_log_prepend_bounded_witness:
  "\<not> processingCommand initial_state
   \<and> length (commandLog initial_state) \<le> 5
   \<and> ok (status (submit True (CompletionContent (Some ''Helm, left 20 degrees rudder''))
      (ReplyParsed (JObj [(''stateUpdates'',
           JObj [(''rudder'', JInt (- 20)), (''course'', JNull), (''speed'', JNull)]),
         (''response'', JStr ''left 20 degrees rudder, aye aye'')]))
      ''helm love 20'' initial_state))
   \<and> commandLog (state_of (pipeline \<lparr>elevenlabs_key = False, primary = PrimaryFetchThrows,
         voices = [], utterance = UtteranceEnd\<rparr> True
      (CompletionContent (Some ''Helm, left 20 degrees rudder''))
      (ReplyParsed (JObj [(''stateUpdates'',
           JObj [(''rudder'', JInt (- 20)), (''course'', JNull), (''speed'', JNull)]),
         (''response'', JStr ''left 20 degrees rudder, aye aye'')]))
      ''helm love 20'' initial_state)) = [JStr ''Helm, left 20 degrees rudder'']
   \<and> length (commandLog (state_of (processCommand \<lparr>elevenlabs_key = False,
         primary = PrimaryFetchThrows, voices = [], utterance = UtteranceEnd\<rparr>
         FetchThrows ''helm love 20'' initial_state))) \<le> 5"
proof -
  let ?c = "CompletionContent (Some ''Helm, left 20 degrees rudder'')"
  let ?i = "ReplyParsed (JObj [(''stateUpdates'',
           JObj [(''rudder'', JInt (- 20)), (''course'', JNull), (''speed'', JNull)]),
         (''response'', JStr ''left 20 degrees rudder, aye aye'')])"
  let ?env = "\<lparr>elevenlabs_key = False, primary = PrimaryFetchThrows,
         voices = [], utterance = UtteranceEnd\<rparr>"
  have a: "\<not> processingCommand initial_state" "length (commandLog initial_state) \<le> 5"
      "commandLog initial_state = []"
    by (simp_all add: initial_state_def)
  have b: "ok (status (submit True ?c ?i ''helm love 20'' initial_state))
      \<and> \<not> truthy (own_prop (body (submit True ?c ?i ''helm love 20'' initial_state)) ''error'')"
    by (simp add: submit_def POST_def request_of_def interpret_command_def
          finish_interpretation_def not_null_def Let_def ok_def)
  note w = command_log_prepend_bounded [where s = initial_state and k = True and c = ?c
      and i = ?i and cmd = "''helm love 20''" and env = ?env and f = FetchThrows]
  from w a(1) b have "\<exists>content. ?c = CompletionContent (Some content) \<and>
         commandLog (state_of (pipeline ?env True ?c ?i ''helm love 20'' initial_state)) =
           take 5 ((if js_trim content = [] then JStr ''helm love 20''
                    else JStr (js_trim content)) # commandLog initial_state)"
    by blast
  then have "commandLog (state_of (pipeline ?env True ?c ?i ''helm love 20'' initial_state))
      = [JStr ''Helm, left 20 degrees rudder'']"
    by (simp add: js_trim_ex3 a(3))
  moreover from w a(2) have "length (commandLog (state_of (processCommand ?env
         FetchThrows ''helm love 20'' initial_state))) \<le> 5"
    by blast
  ultimately show ?thesis using a b by simp
qed


section \<open>Course references in the confirmation\<close>

lemma replace_course_at_match:
  "course_match m \<Longrightarrow> replace_course m w = ''course '' @ w @ drop 10 m"
  by (cases m) (simp_all add: course_match_def)

lemma replace_course_leftmost:
  assumes "course_match m" "\<forall>k < length pre. \<not> course_match (drop k (pre @ m))"
  shows "replace_course (pre @ m) w = pre @ ''course '' @ w @ drop 10 m"
  using assms
proof (induction pre)
  case Nil
  then show ?case by (simp add: replace_course_at_match)
next
  case (Cons x pre)
  from Cons.prems(2) have "\<not> course_match (drop 0 ((x # pre) @ m))" by blast
  then have no: "\<not> course_match (x # pre @ m)" by simp
  have "\<forall>k < length pre. \<not> course_match (drop k (pre @ m))"
  proof (intro allI impI)
    fix k assume "k < length pre"
    then have "Suc k < length (x # pre)" by simp
    with Cons.prems(2) have "\<not> course_match (drop (Suc k) ((x # pre) @ m))" by blast
    then show "\<not> course_match (drop k (pre @ m))" by simp
  qed
  with Cons.IH Cons.prems(1) have "replace_course (pre @ m) w = pre @ ''course '' @ w @ drop 10 m"
    by blast
  with no show ?case by simp
qed

lemma replace_course_no_match:
  "\<forall>k. \<not> course_match (drop k r) \<Longrightarrow> replace_course r w = r"
proof (induction r)
  case Nil
  then show ?case by simp
next
  case (Cons x r)
  from Cons.prems have "\<not> course_match (drop 0 (x # r))" by blast
  then have no: "\<not> course_match (x # r)" by simp
  have "\<forall>k. \<not> course_match (drop k r)"
  proof
    fix k
    from Cons.prems have "\<not> course_match (drop (Suc k) (x # r))" by blast
    then show "\<not> course_match (drop k r)" by simp
  qed
  with Cons.IH have "replace_course r w = r" by blast
  with no show ?case by simp
qed

lemma course_match_intro:
  "is_digit a \<Longrightarrow> is_digit b \<Longrightarrow> is_digit d \<Longrightarrow> course_match (''course '' @ a # b # d # post)"
  by (simp add: course_match_def)

lemma finish_response:
  assumes "own_prop v ''stateUpdates'' = Some u" "truthy (Some u)"
    "own_prop v ''response'' = Some (JStr r)" "r \<noteq> []"
  shows "own_prop u ''course'' = Some JNull \<Longrightarrow>
           \<exists>res. finish_interpretation c cc v = Inr res
             \<and> own_prop (body res) ''response'' = Some (JStr r)"
    and "own_prop u ''course'' = Some (JNum n) \<Longrightarrow>
           \<exists>res. finish_interpretation c cc v = Inr res
             \<and> formatNavalCourse (Some (JNum n)) = Inr (course_words n)
             \<and> own_prop (body res) ''response'' =
                   Some (JStr (replace_course r (course_words n)))"
proof -
  from assms(1) obtain kvs where v: "v = JObj kvs" by (cases v) simp_all
  show "\<exists>res. finish_interpretation c cc v = Inr res
             \<and> own_prop (body res) ''response'' = Some (JStr r)"
    if "own_prop u ''course'' = Some JNull"
    using assms that
    by (simp add: v finish_interpretation_def truthy_not_null_undefined not_null_def
          Let_def update_conv')
  show "\<exists>res. finish_interpretation c cc v = Inr res
             \<and> formatNavalCourse (Some (JNum n)) = Inr (course_words n)
             \<and> own_prop (body res) ''response'' =
                   Some (JStr (replace_course r (course_words n)))"
    if "own_prop u ''course'' = Some (JNum n)"
    using assms that
    by (simp add: v finish_interpretation_def truthy_not_null_undefined not_null_def
          formatNavalCourse_def Let_def update_conv' course_words_def)
qed

lemma formatNavalCourse_90:
  "formatNavalCourse (Some (JNum (Integer 90))) = Inr ''zero niner zero''"
  using formatNavalCourse_nat [of 90] by (simp add: spec_digit_word_def)

text \<open>
  Claim C8, as stated, fails: the pattern is applied once, so a second course reference
  in the confirmation keeps its digits; and the words put in come from
  \<^verbatim>\<open>stateUpdates.course\<close>, not from the digits that were matched.
\<close>

theorem only_first_course_reference_replaced:
  "own_prop (body (submit True (CompletionContent (Some ''Helm, steady on course 090''))
      (ReplyParsed (JObj [(''stateUpdates'',
           JObj [(''rudder'', JNull), (''course'', JInt 90), (''speed'', JNull)]),
         (''response'', JStr ''come to course 180, then course 090, aye'')]))
      ''helm steady on 090'' initial_state)) ''response''
   = Some (JStr ''come to course zero niner zero, then course 090, aye'')"
  by (simp add: submit_def POST_def request_of_def interpret_command_def
        finish_interpretation_def not_null_def Let_def formatNavalCourse_90
        course_match_def is_digit_def)

text \<open>
  Claim C8, amended. After interpretation, when \<^verbatim>\<open>stateUpdates.course\<close> is a number,
  the leftmost occurrence in the confirmation string of "course " followed by three
  digits is replaced by "course " followed by what the course formatter makes of
  \<^verbatim>\<open>stateUpdates.course\<close>: the text of the number, padded with zeros to three
  characters, each digit pronounced and each other character giving the empty word, joined
  by single spaces. For an integer course in 0 to 359 these are its three pronunciation
  words. The text before and after that occurrence is kept, and a confirmation without
  such an occurrence is left as it is. When the course is null the confirmation is not
  changed.
\<close>

theorem first_course_reference_replaced:
  "own_prop v ''stateUpdates'' = Some u \<and> truthy (Some u)
   \<and> own_prop v ''response'' = Some (JStr r) \<and> r \<noteq> [] \<longrightarrow>
     (own_prop u ''course'' = Some JNull \<longrightarrow>
        (\<exists>res. finish_interpretation c cc v = Inr res
           \<and> own_prop (body res) ''response'' = Some (JStr r)))
     \<and> (\<forall>x. own_prop u ''course'' = Some (JNum x) \<longrightarrow>
          (\<exists>res. finish_interpretation c cc v = Inr res
             \<and> formatNavalCourse (Some (JNum x)) = Inr (course_words x)
             \<and> own_prop (body res) ''response'' =
                   Some (JStr (replace_course r (course_words x)))
             \<and> (\<forall>n. 0 \<le> n \<and> n \<le> 359 \<and> x = Integer (of_int n) \<longrightarrow>
                   course_words x = spec_formatCourse n)
             \<and> (\<forall>pre a b d post.
                   r = pre @ ''course '' @ a # b # d # post
                   \<and> is_digit a \<and> is_digit b \<and> is_digit d
                   \<and> (\<forall>k < length pre. \<not> course_match (drop k r)) \<longrightarrow>
                   replace_course r (course_words x) =
                     pre @ ''course '' @ course_words x @ post)
             \<and> ((\<forall>k. \<not> course_match (drop k r)) \<longrightarrow>
                   replace_course r (course_words x) = r)))"
proof (intro impI conjI allI)
  assume h: "own_prop v ''stateUpdates'' = Some u \<and> truthy (Some u)
   \<and> own_prop v ''response'' = Some (JStr r) \<and> r \<noteq> []"
  assume "own_prop u ''course'' = Some JNull"
  with h show "\<exists>res. finish_interpretation c cc v = Inr res
           \<and> own_prop (body res) ''response'' = Some (JStr r)"
    using finish_response(1) by blast
next
  fix x
  assume h: "own_prop v ''stateUpdates'' = Some u \<and> truthy (Some u)
   \<and> own_prop v ''response'' = Some (JStr r) \<and> r \<noteq> []"
  assume "own_prop u ''course'' = Some (JNum x)"
  with h obtain res where rw: "finish_interpretation c cc v = Inr res"
      "formatNavalCourse (Some (JNum x)) = Inr (course_words x)"
      "own_prop (body res) ''response'' = Some (JStr (replace_course r (course_words x)))"
    using finish_response(2) [of v u r x c cc] by blast
  have sp: "course_words x = spec_formatCourse n"
    if "0 \<le> n \<and> n \<le> 359 \<and> x = Integer (of_int n)" for n
  proof -
    from that have "nat n < 1000" by arith
    from formatNavalCourse_nat [OF this] that rw(2) show ?thesis
      by (simp add: spec_formatCourse_def)
  qed
  have left: "replace_course r (course_words x) = pre @ ''course '' @ course_words x @ post"
    if "r = pre @ ''course '' @ a # b # d # post \<and> is_digit a \<and> is_digit b \<and> is_digit d
        \<and> (\<forall>k < length pre. \<not> course_match (drop k r))" for pre a b d post
  proof -
    let ?m = "''course '' @ a # b # d # post"
    from that have r: "r = pre @ ?m" by blast
    from that have nm: "\<forall>k < length pre. \<not> course_match (drop k r)" by blast
    from that course_match_intro [of a b d post] have m: "course_match ?m" by blast
    from nm have "\<forall>k < length pre. \<not> course_match (drop k (pre @ ?m))"
      unfolding r .
    from replace_course_leftmost [OF m this, of "course_words x"] show ?thesis
      unfolding r by simp
  qed
  have none: "replace_course r (course_words x) = r" if "\<forall>k. \<not> course_match (drop k r)"
    using that by (rule replace_course_no_match)
  from rw sp left none
  show "\<exists>res. finish_interpretation c cc v = Inr res
             \<and> formatNavalCourse (Some (JNum x)) = Inr (course_words x)
             \<and> own_prop (body res) ''response'' =
                   Some (JStr (replace_course r (course_words x)))
             \<and> (\<forall>n. 0 \<le> n \<and> n \<le> 359 \<and> x = Integer (of_int n) \<longrightarrow>
                   course_words x = spec_formatCourse n)
             \<and> (\<forall>pre a b d post.
                   r = pre @ ''course '' @ a # b # d # post
                   \<and> is_digit a \<and> is_digit b \<and> is_digit d
                   \<and> (\<forall>k < length pre. \<not> course_match (drop k r)) \<longrightarrow>
                   replace_course r (course_words x) =
                     pre @ ''course '' @ course_words x @ post)
             \<and> ((\<forall>k. \<not> course_match (drop k r)) \<longrightarrow>
                   replace_course r (course_words x) = r)"
    by blast
qed

theorem first_course_reference_replaced_witness:
  "(\<exists>res. finish_interpretation (JStr ''helm steady on 180'') ''Helm, steady on course 180''
       (JObj [(''stateUpdates'',
           JObj [(''rudder'', JNull), (''course'', JInt 180), (''speed'', JNull)]),
         (''response'', JStr ''to course 180, aye'')]) = Inr res
     \<and> own_prop (body res) ''response'' = Some (JStr ''to course one eight zero, aye''))
   \<and> (\<exists>res. finish_interpretation (JStr ''helm meet her'') ''Helm, meet her''
         (JObj [(''stateUpdates'',
             JObj [(''rudder'', JInt 0), (''course'', JNull), (''speed'', JNull)]),
           (''response'', JStr ''meet her on course 090, aye'')]) = Inr res
       \<and> own_prop (body res) ''response'' = Some (JStr ''meet her on course 090, aye''))
   \<and> (\<exists>res. finish_interpretation (JStr ''helm steady on 90.5'') ''Helm, steady on course 90.5''
         (JObj [(''stateUpdates'',
             JObj [(''rudder'', JNull), (''course'', JNum (Decimal ''90.5'')),
                   (''speed'', JNull)]),
           (''response'', JStr ''course 090, aye'')]) = Inr res
       \<and> own_prop (body res) ''response'' = Some (JStr ''course niner zero  five, aye''))"
proof -
  let ?u = "JObj [(''rudder'', JNull), (''course'', JInt 180), (''speed'', JNull)]"
  let ?r = "''to course 180, aye''"
  let ?v = "JObj [(''stateUpdates'', ?u), (''response'', JStr ?r)]"
  have pre: "own_prop ?v ''stateUpdates'' = Some ?u \<and> truthy (Some ?u)
      \<and> own_prop ?v ''response'' = Some (JStr ?r) \<and> ?r \<noteq> []"
    by simp
  have crs: "own_prop ?u ''course'' = Some (JNum (Integer (of_int 180)))" by simp
  have rng: "(0::int) \<le> 180 \<and> (180::int) \<le> 359
      \<and> Integer (of_int 180) = Integer (of_int 180)" by simp
  have shape: "?r = ''to '' @ ''course '' @ CHR ''1'' # CHR ''8'' # CHR ''0'' # '', aye''
      \<and> is_digit CHR ''1'' \<and> is_digit CHR ''8'' \<and> is_digit CHR ''0''
      \<and> (\<forall>k < length ''to ''. \<not> course_match (drop k ?r))"
    by (simp add: is_digit_def course_match_def numeral_3_eq_3 less_Suc_eq)
  from mp [OF first_course_reference_replaced pre,
      of "JStr ''helm steady on 180''" "''Helm, steady on course 180''"] crs
  obtain res where w:
      "finish_interpretation (JStr ''helm steady on 180'') ''Helm, steady on course 180'' ?v
         = Inr res"
      "own_prop (body res) ''response'' =
         Some (JStr (replace_course ?r (course_words (Integer (of_int 180)))))"
      "\<forall>n. 0 \<le> n \<and> n \<le> 359 \<and> Integer (of_int 180) = Integer (of_int n) \<longrightarrow>
           course_words (Integer (of_int 180)) = spec_formatCourse n"
      "\<forall>pre a b d post.
                   ?r = pre @ ''course '' @ a # b # d # post
                   \<and> is_digit a \<and> is_digit b \<and> is_digit d
                   \<and> (\<forall>k < length pre. \<not> course_match (drop k ?r)) \<longrightarrow>
                   replace_course ?r (course_words (Integer (of_int 180))) =
                     pre @ ''course '' @ course_words (Integer (of_int 180)) @ post"
    by blast
  from w(3) rng have "course_words (Integer (of_int 180)) = spec_formatCourse 180"
    by blast
  then have cw: "course_words (Integer (of_int 180)) = ''one eight zero''"
    by (simp add: spec_formatCourse_def spec_digit_word_def)
  from w(4) shape
  have "replace_course ?r (course_words (Integer (of_int 180))) =
      ''to '' @ ''course '' @ course_words (Integer (of_int 180)) @ '', aye''"
    by blast
  with cw have "replace_course ?r (course_words (Integer (of_int 180))) =
      ''to course one eight zero, aye''"
    by simp
  with w(1,2) have first: "\<exists>res. finish_interpretation (JStr ''helm steady on 180'')
        ''Helm, steady on course 180'' ?v = Inr res
      \<and> own_prop (body res) ''response'' = Some (JStr ''to course one eight zero, aye'')"
    by simp
  let ?u' = "JObj [(''rudder'', JInt 0), (''course'', JNull), (''speed'', JNull)]"
  let ?r' = "''meet her on course 090, aye''"
  let ?v' = "JObj [(''stateUpdates'', ?u'), (''response'', JStr ?r')]"
  have pre': "own_prop ?v' ''stateUpdates'' = Some ?u' \<and> truthy (Some ?u')
      \<and> own_prop ?v' ''response'' = Some (JStr ?r') \<and> ?r' \<noteq> []"
    by simp
  have crs': "own_prop ?u' ''course'' = Some JNull" by simp
  from mp [OF first_course_reference_replaced pre',
      of "JStr ''helm meet her''" "''Helm, meet her''"] crs'
  have second: "\<exists>res'. finish_interpretation (JStr ''helm meet her'') ''Helm, meet her'' ?v'
        = Inr res' \<and> own_prop (body res') ''response'' = Some (JStr ?r')"
    by blast
  let ?uf = "JObj [(''rudder'', JNull), (''course'', JNum (Decimal ''90.5'')),
                   (''speed'', JNull)]"
  let ?rf = "''course 090, aye''"
  let ?vf = "JObj [(''stateUpdates'', ?uf), (''response'', JStr ?rf)]"
  have pref: "own_prop ?vf ''stateUpdates'' = Some ?uf \<and> truthy (Some ?uf)
      \<and> own_prop ?vf ''response'' = Some (JStr ?rf) \<and> ?rf \<noteq> []"
    by simp
  have crsf: "own_prop ?uf ''course'' = Some (JNum (Decimal ''90.5''))" by simp
  have shapef: "?rf = [] @ ''course '' @ CHR ''0'' # CHR ''9'' # CHR ''0'' # '', aye''
      \<and> is_digit CHR ''0'' \<and> is_digit CHR ''9'' \<and> is_digit CHR ''0''
      \<and> (\<forall>k < length ([]::string). \<not> course_match (drop k ?rf))"
    by (simp add: is_digit_def)
  have cwf: "course_words (Decimal ''90.5'') = ''niner zero  five''"
    by (simp add: course_words_def padStart3_def naval_digit_def parseInt_char_def
          NAVAL_NUMBERS_def)
  from mp [OF first_course_reference_replaced pref,
      of "JStr ''helm steady on 90.5''" "''Helm, steady on course 90.5''"] crsf
  obtain resf where wf:
      "finish_interpretation (JStr ''helm steady on 90.5'') ''Helm, steady on course 90.5'' ?vf
         = Inr resf"
      "own_prop (body resf) ''response'' =
         Some (JStr (replace_course ?rf (course_words (Decimal ''90.5''))))"
      "\<forall>pre a b d post.
                   ?rf = pre @ ''course '' @ a # b # d # post
                   \<and> is_digit a \<and> is_digit b \<and> is_digit d
                   \<and> (\<forall>k < length pre. \<not> course_match (drop k ?rf)) \<longrightarrow>
                   replace_course ?rf (course_words (Decimal ''90.5'')) =
                     pre @ ''course '' @ course_words (Decimal ''90.5'') @ post"
    by blast
  from wf(3) shapef
  have "replace_course ?rf (course_words (Decimal ''90.5'')) =
      [] @ ''course '' @ course_words (Decimal ''90.5'') @ '', aye''"
    by blast
  with cwf have "replace_course ?rf (course_words (Decimal ''90.5'')) =
      ''course niner zero  five, aye''"
    by simp
  with wf(1,2) have third: "\<exists>res. finish_interpretation (JStr ''helm steady on 90.5'')
        ''Helm, steady on course 90.5'' ?vf = Inr res
      \<and> own_prop (body res) ''response'' = Some (JStr ''course niner zero  five, aye'')"
    by simp
  from first second third show ?thesis by blast
qed

section \<open>The gate, the speech channels and the telegraph\<close>

lemma gate_discards:
  "processingCommand s \<Longrightarrow> processCommand env f cmd s = Returned s"
  by (simp add: processCommand_def)

lemma gate_released_on_return:
  assumes "\<not> processingCommand s" "processCommand env f cmd s = Returned s'"
  shows "\<not> processingCommand s'"
  using assms
  by (auto simp: processCommand_def Let_def split: sum.splits prod.splits settled.splits)

lemma suspended_only_on_silent_utterance:
  assumes "processCommand env f cmd s = Suspended s'"
  shows "\<not> elevenlabs_key env \<and> utterance env = UtteranceError \<and> \<not> isMuted s
         \<and> processingCommand s'"
  using assms
  by (auto simp: processCommand_def playAudioResponse_def apply_result_def update_state_def
        Let_def
        split: sum.splits prod.splits settled.splits if_splits primary_reply.splits
          playback.splits utterance_event.splits fetch_outcome.splits option.splits)

text \<open>
  Claim C3 at the failing input. The primary channel is not configured, the component is
  not muted, the command succeeds, and the on-device utterance ends with an error event
  instead of an end event. The promise of \<^verbatim>\<open>playAudioResponse\<close> is then never
  settled, \<^verbatim>\<open>processCommand\<close> stays suspended at its \<^verbatim>\<open>await\<close>, the
  \<^verbatim>\<open>finally\<close> block is never reached, the gate flag stays set, and every later
  transcript is discarded.
\<close>

theorem gate_held_after_utterance_error:
  "\<exists>s1. processCommand
       \<lparr>elevenlabs_key = False, primary = PrimaryFetchThrows, voices = [],
          utterance = UtteranceError\<rparr>
       (FetchResponse 200 (Some (JObj [(''stateUpdates'',
            JObj [(''rudder'', JInt (- 20)), (''course'', JNull), (''speed'', JNull)]),
          (''response'', JStr ''left 20 degrees rudder, aye aye''),
          (''originalCommand'', JStr ''helm left 20''),
          (''correctedCommand'', JStr ''Helm, left 20 degrees rudder'')])))
       ''helm left 20'' initial_state = Suspended s1
     \<and> processingCommand s1
     \<and> rudder (shipState s1) = Some (JInt (- 20))
     \<and> (\<forall>env f cmd. processCommand env f cmd s1 = Returned s1)"
  by (simp add: processCommand_def apply_result_def update_state_def merge_def not_null_def
        playAudioResponse_def preferredVoice_def initial_state_def ok_def Let_def)

lemma nat_toString_500: "nat_toString 500 = ''500''"
  using nat_toString_3 [of 500] by (simp add: digit_char_def)

text \<open>
  Claim C5, as stated, fails: with the primary channel configured, a failure of that
  channel (here an HTTP status 500) rejects the dispatch and raises the "Audio Error"
  notification; the on-device channel, which would have spoken, is not tried.
\<close>

theorem primary_failure_has_no_fallback:
  "playAudioResponse
     \<lparr>elevenlabs_key = True, primary = PrimaryHttp 500 PlaybackEnded,
        voices = [''Daniel''], utterance = UtteranceEnd\<rparr> False (Some (JStr ''aye aye''))
   = (Rejected (Error ''ElevenLabs API error: 500''), [audio_error_toast],
      [PrimarySpeech (Some (JStr ''aye aye''))])"
  by (simp add: playAudioResponse_def ok_def nat_toString_500)

lemma preferredVoice_first:
  "preferredVoice vs = Some name \<longleftrightarrow>
     (\<exists>i < length vs. vs ! i = name \<and> preferred name \<and> (\<forall>j < i. \<not> preferred (vs ! j)))"
  unfolding preferredVoice_def by (auto simp: find_Some_iff)

lemma preferredVoice_None:
  "preferredVoice vs = None \<longleftrightarrow> (\<forall>name \<in> set vs. \<not> preferred name)"
  unfolding preferredVoice_def by (auto simp: find_None_iff)

text \<open>
  Claim C5, amended. When not muted, the feedback dispatcher uses the primary
  high-fidelity channel exactly when its API key is configured: it then asks the primary
  channel, and never the on-device channel, to speak the text; the dispatch resolves when
  the audio has played to its end and in no other case, and every failure of the primary
  channel is an error of the dispatch (the request throws or the HTTP status is not a
  success, both with the "Audio Error" notification; playback fires an error or
  \<^verbatim>\<open>play()\<close> rejects). When the key is not configured it uses the on-device channel
  and never the primary one: the utterance gets the first voice whose name contains
  Daniel, Premium or Natural when there is one and no selected voice otherwise, and the
  dispatch resolves when the utterance ends.
\<close>

theorem channel_chosen_by_configuration:
  "\<not> muted \<longrightarrow>
     (elevenlabs_key env \<longrightarrow>
        snd (snd (playAudioResponse env muted t0)) = [PrimarySpeech t0]
        \<and> (fst (playAudioResponse env muted t0) = Resolved
             \<longleftrightarrow> (\<exists>st. primary env = PrimaryHttp st PlaybackEnded \<and> ok st))
        \<and> (primary env = PrimaryFetchThrows \<longrightarrow>
             playAudioResponse env muted t0 =
               (Rejected (TypeError ''Failed to fetch''), [audio_error_toast],
                [PrimarySpeech t0]))
        \<and> (\<forall>st p. primary env = PrimaryHttp st p \<and> \<not> ok st \<longrightarrow>
             playAudioResponse env muted t0 =
               (Rejected (Error (''ElevenLabs API error: '' @ nat_toString st)),
                [audio_error_toast], [PrimarySpeech t0]))
        \<and> (\<forall>st. primary env = PrimaryHttp st PlaybackEnded \<and> ok st \<longrightarrow>
             playAudioResponse env muted t0 = (Resolved, [], [PrimarySpeech t0]))
        \<and> (\<forall>st. primary env = PrimaryHttp st PlaybackError \<and> ok st \<longrightarrow>
             playAudioResponse env muted t0 = (Rejected Thrown, [], [PrimarySpeech t0]))
        \<and> (\<forall>st m. primary env = PrimaryHttp st (PlayRejected m) \<and> ok st \<longrightarrow>
             playAudioResponse env muted t0 = (Rejected (Error m), [], [PrimarySpeech t0])))
     \<and> (\<not> elevenlabs_key env \<longrightarrow>
        (\<forall>t. PrimarySpeech t \<notin> set (snd (snd (playAudioResponse env muted t0))))
        \<and> (utterance env = UtteranceEnd \<longrightarrow>
              playAudioResponse env muted t0 =
                (Resolved, [], [SecondarySpeech t0 (preferredVoice (voices env))]))
        \<and> (\<forall>name. preferredVoice (voices env) = Some name \<longleftrightarrow>
              (\<exists>i < length (voices env). voices env ! i = name
                 \<and> (str_includes name ''Daniel'' \<or> str_includes name ''Premium''
                      \<or> str_includes name ''Natural'')
                 \<and> (\<forall>j < i. \<not> (str_includes (voices env ! j) ''Daniel''
                      \<or> str_includes (voices env ! j) ''Premium''
                      \<or> str_includes (voices env ! j) ''Natural''))))
        \<and> (preferredVoice (voices env) = None \<longleftrightarrow>
              (\<forall>name \<in> set (voices env). \<not> (str_includes name ''Daniel''
                  \<or> str_includes name ''Premium'' \<or> str_includes name ''Natural''))))"
proof (intro impI conjI)
  assume m: "\<not> muted" and k: "elevenlabs_key env"
  show "snd (snd (playAudioResponse env muted t0)) = [PrimarySpeech t0]"
    using m k
    by (simp add: playAudioResponse_def split: primary_reply.splits playback.splits)
  show "fst (playAudioResponse env muted t0) = Resolved
             \<longleftrightarrow> (\<exists>st. primary env = PrimaryHttp st PlaybackEnded \<and> ok st)"
    using m k
    by (auto simp: playAudioResponse_def split: primary_reply.splits playback.splits)
  show "playAudioResponse env muted t0 =
               (Rejected (TypeError ''Failed to fetch''), [audio_error_toast],
                [PrimarySpeech t0])"
    if "primary env = PrimaryFetchThrows"
    using m k that by (simp add: playAudioResponse_def)
  show "\<forall>st p. primary env = PrimaryHttp st p \<and> \<not> ok st \<longrightarrow>
             playAudioResponse env muted t0 =
               (Rejected (Error (''ElevenLabs API error: '' @ nat_toString st)),
                [audio_error_toast], [PrimarySpeech t0])"
    using m k by (simp add: playAudioResponse_def)
  show "\<forall>st. primary env = PrimaryHttp st PlaybackEnded \<and> ok st \<longrightarrow>
             playAudioResponse env muted t0 = (Resolved, [], [PrimarySpeech t0])"
    using m k by (simp add: playAudioResponse_def)
  show "\<forall>st. primary env = PrimaryHttp st PlaybackError \<and> ok st \<longrightarrow>
             playAudioResponse env muted t0 = (Rejected Thrown, [], [PrimarySpeech t0])"
    using m k by (simp add: playAudioResponse_def)
  show "\<forall>st m. primary env = PrimaryHttp st (PlayRejected m) \<and> ok st \<longrightarrow>
             playAudioResponse env muted t0 = (Rejected (Error m), [], [PrimarySpeech t0])"
    using m k by (simp add: playAudioResponse_def)
next
  assume m: "\<not> muted" and k: "\<not> elevenlabs_key env"
  show "\<forall>t. PrimarySpeech t \<notin> set (snd (snd (playAudioResponse env muted t0)))"
    using m k by (simp add: playAudioResponse_def split: utterance_event.splits)
  show "playAudioResponse env muted t0 =
          (Resolved, [], [SecondarySpeech t0 (preferredVoice (voices env))])"
    if "utterance env = UtteranceEnd"
    using m k that by (simp add: playAudioResponse_def)
  show "\<forall>name. preferredVoice (voices env) = Some name \<longleftrightarrow>
              (\<exists>i < length (voices env). voices env ! i = name
                 \<and> (str_includes name ''Daniel'' \<or> str_includes name ''Premium''
                      \<or> str_includes name ''Natural'')
                 \<and> (\<forall>j < i. \<not> (str_includes (voices env ! j) ''Daniel''
                      \<or> str_includes (voices env ! j) ''Premium''
                      \<or> str_includes (voices env ! j) ''Natural'')))"
    using preferredVoice_first [of "voices env"] by (simp add: preferred_def)
  show "preferredVoice (voices env) = None \<longleftrightarrow>
              (\<forall>name \<in> set (voices env). \<not> (str_includes name ''Daniel''
                  \<or> str_includes name ''Premium'' \<or> str_includes name ''Natural''))"
    using preferredVoice_None [of "voices env"] by (simp add: preferred_def)
qed

text \<open>
  Claim C6 at the failing inputs. For 110 the ahead table names "emergency flank" and the
  telegraph shows FLANK; for -75 the astern table names "full" and the telegraph shows
  STANDARD, a name of the ahead table.
\<close>

theorem telegraph_differs_from_tables:
  "spec_speedBucketName 110 = Some ''emergency flank''
   \<and> telegraphOrder 110 = ''ALL AHEAD FLANK''
   \<and> spec_speedBucketName (- 75) = Some ''full''
   \<and> telegraphOrder (- 75) = ''ALL ASTERN STANDARD''"
  by (simp add: spec_speedBucketName_def SPEED_AHEAD_def SPEED_ASTERN_def telegraphOrder_def
        getSpeedText_def)

theorem channel_chosen_by_configuration_witness:
  "playAudioResponse
     \<lparr>elevenlabs_key = False, primary = PrimaryFetchThrows,
        voices = [''Alex'', ''Samantha Premium'', ''Daniel''], utterance = UtteranceEnd\<rparr>
     False (Some (JStr ''aye aye''))
   = (Resolved, [], [SecondarySpeech (Some (JStr ''aye aye'')) (Some ''Samantha Premium'')])
   \<and> playAudioResponse
     \<lparr>elevenlabs_key = True, primary = PrimaryHttp 200 PlaybackError,
        voices = [''Alex'', ''Samantha Premium'', ''Daniel''], utterance = UtteranceEnd\<rparr>
     False (Some (JStr ''aye aye''))
   = (Rejected Thrown, [], [PrimarySpeech (Some (JStr ''aye aye''))])
   \<and> playAudioResponse
     \<lparr>elevenlabs_key = True, primary = PrimaryHttp 200 PlaybackEnded,
        voices = [], utterance = UtteranceError\<rparr>
     False (Some (JStr ''aye aye''))
   = (Resolved, [], [PrimarySpeech (Some (JStr ''aye aye''))])"
proof -
  let ?vs = "[''Alex'', ''Samantha Premium'', ''Daniel'']"
  let ?e1 = "\<lparr>elevenlabs_key = False, primary = PrimaryFetchThrows,
        voices = ?vs, utterance = UtteranceEnd\<rparr>"
  let ?e2 = "\<lparr>elevenlabs_key = True, primary = PrimaryHttp 200 PlaybackError,
        voices = ?vs, utterance = UtteranceEnd\<rparr>"
  let ?e3 = "\<lparr>elevenlabs_key = True, primary = PrimaryHttp 200 PlaybackEnded,
        voices = [], utterance = UtteranceError\<rparr>"
  let ?t = "Some (JStr ''aye aye'')"
  have m: "\<not> False" by simp
  have h1: "\<not> elevenlabs_key ?e1" "utterance ?e1 = UtteranceEnd" by simp_all
  have first: "\<exists>i < length (voices ?e1). voices ?e1 ! i = ''Samantha Premium''
      \<and> (str_includes ''Samantha Premium'' ''Daniel''
           \<or> str_includes ''Samantha Premium'' ''Premium''
           \<or> str_includes ''Samantha Premium'' ''Natural'')
      \<and> (\<forall>j < i. \<not> (str_includes (voices ?e1 ! j) ''Daniel''
           \<or> str_includes (voices ?e1 ! j) ''Premium''
           \<or> str_includes (voices ?e1 ! j) ''Natural''))"
    by (rule exI [of _ 1]) simp
  note w1 = mp [OF channel_chosen_by_configuration m, of ?e1 ?t]
  from w1 h1(1) first have pv: "preferredVoice (voices ?e1) = Some ''Samantha Premium''"
    by blast
  from w1 h1 have "playAudioResponse ?e1 False ?t =
      (Resolved, [], [SecondarySpeech ?t (preferredVoice (voices ?e1))])"
    by blast
  with pv have a: "playAudioResponse ?e1 False ?t =
      (Resolved, [], [SecondarySpeech ?t (Some ''Samantha Premium'')])"
    by simp
  have h2: "elevenlabs_key ?e2" "primary ?e2 = PrimaryHttp 200 PlaybackError \<and> ok 200"
    by (simp_all add: ok_def)
  from mp [OF channel_chosen_by_configuration m, of ?e2 ?t] h2
  have b: "playAudioResponse ?e2 False ?t = (Rejected Thrown, [], [PrimarySpeech ?t])"
    by blast
  have h3: "elevenlabs_key ?e3" "primary ?e3 = PrimaryHttp 200 PlaybackEnded \<and> ok 200"
    by (simp_all add: ok_def)
  from mp [OF channel_chosen_by_configuration m, of ?e3 ?t] h3
  have c: "playAudioResponse ?e3 False ?t = (Resolved, [], [PrimarySpeech ?t])"
    by blast
  from a b c show ?thesis by blast
qed

lemma getSpeedText_ahead_table:
  assumes "0 < p" "p < 110"
  shows "map_option (map upper_char) (spec_speedBucketName p) = Some (getSpeedText p)"
proof -
  consider "p < 10" | "10 \<le> p" "p < 25" | "25 \<le> p" "p < 33" | "33 \<le> p" "p < 50"
    | "50 \<le> p" "p < 67" | "67 \<le> p" "p < 75" | "75 \<le> p" "p < 90" | "90 \<le> p" "p < 100"
    | "100 \<le> p"
    by linarith
  then show ?thesis
    using assms
    by cases
      (simp_all add: spec_speedBucketName_def SPEED_AHEAD_def getSpeedText_def upper_char_def)
qed

end
